theory Spec2Isabelle
  imports Main "HOL-Library.Word" "HOL-Library.Monad_Syntax"
begin

unbundle bit_operations_syntax

section \<open>Platform constants\<close>

text \<open>
  The daemon is compiled against the route-socket headers of a patched kernel
  (\<^verbatim>\<open><net/route.h>\<close>, \<^verbatim>\<open><sys/socket.h>\<close>), against \<^verbatim>\<open>netcfgd.h\<close> and, for the size of
  \<^verbatim>\<open>struct ctl_main_info\<close>'s text, against the control-socket header. None of
  them is among the source files, so every constant and size the C code takes from them
  is a field of the record below; the functions of this theory take the record as their
  first argument and the theorems hold for every value of it, under the side conditions
  they name.
\<close>

type_synonym byte = "8 word"

record platform =
  big_endian :: bool
  sizeof_long :: nat
  sizeof_sockaddr_in :: nat
  sizeof_ifra_name :: nat
  RTM_VERSION :: byte
  RTM_ADD :: byte
  RTM_DELETE :: byte
  RTM_PROPOSAL :: byte
  RTP_NONE :: byte
  AF_INET :: byte
  AF_INET6 :: byte
  RTV_MTU :: "32 word"
  RTA_DST :: "32 word"
  RTA_GATEWAY :: "32 word"
  RTA_NETMASK :: "32 word"
  RTA_IFA :: "32 word"
  RTAX_MAX :: nat
  RTAX_GATEWAY :: nat
  RTAX_NETMASK :: nat
  RTAX_IFA :: nat
  RTAX_STATIC :: nat
  RTAX_SEARCH :: nat
  RTAX_DNS1 :: nat
  RTAX_DNS2 :: nat
  RTAX_DNS3 :: nat
  RTAX_DNS4 :: nat
  sizeof_rtstatic :: nat
  sizeof_rtsearch :: nat
  sizeof_addr :: nat
  sizeof_cmi_text :: nat

text \<open>
  A concrete platform, used to run the model: a little-endian LP64 machine with the
  values of OpenBSD's headers for the stock constants; the extension slots (static
  routes, search domains, four DNS servers) are numbered after the stock slots.
\<close>

definition lp64 :: platform where
  "lp64 = \<lparr> big_endian = False, sizeof_long = 8, sizeof_sockaddr_in = 16,
     sizeof_ifra_name = 16,
     RTM_VERSION = 5, RTM_ADD = 1, RTM_DELETE = 2, RTM_PROPOSAL = 19, RTP_NONE = 0,
     AF_INET = 2, AF_INET6 = 24, RTV_MTU = 1,
     RTA_DST = 1, RTA_GATEWAY = 2, RTA_NETMASK = 4, RTA_IFA = 32,
     RTAX_MAX = 21, RTAX_GATEWAY = 1, RTAX_NETMASK = 2, RTAX_IFA = 5,
     RTAX_STATIC = 15, RTAX_SEARCH = 16,
     RTAX_DNS1 = 17, RTAX_DNS2 = 18, RTAX_DNS3 = 19, RTAX_DNS4 = 20,
     sizeof_rtstatic = 128, sizeof_rtsearch = 128, sizeof_addr = 4,
     sizeof_cmi_text = 256 \<rparr>"

text \<open>
  \<^verbatim>\<open>rti_info\<close> is an array of \<^verbatim>\<open>RTAX_MAX\<close> pointers and \<^verbatim>\<open>rtm_addrs\<close> an \<^verbatim>\<open>int\<close>: the slot
  numbers the decoder indexes the array with are below \<^verbatim>\<open>RTAX_MAX\<close>, which is at most the
  number of bits of the bitmap.
\<close>

definition slots_in_range :: "platform \<Rightarrow> bool" where
  "slots_in_range P \<longleftrightarrow>
     RTAX_MAX P \<le> 32 \<and> RTAX_GATEWAY P < RTAX_MAX P \<and> RTAX_NETMASK P < RTAX_MAX P \<and>
     RTAX_IFA P < RTAX_MAX P \<and> RTAX_STATIC P < RTAX_MAX P \<and> RTAX_SEARCH P < RTAX_MAX P \<and>
     RTAX_DNS1 P < RTAX_MAX P \<and> RTAX_DNS2 P < RTAX_MAX P \<and> RTAX_DNS3 P < RTAX_MAX P \<and>
     RTAX_DNS4 P < RTAX_MAX P"

section \<open>The receive buffer\<close>

text \<open>
  \<^verbatim>\<open>kr_dispatch_msg\<close> reads \<open>n\<close> bytes from the routing socket into a local array and
  walks them. The model's buffer is the list of the \<open>n\<close> bytes that were read. A C
  expression that dereferences an address at or past the end of these bytes gets
  \<open>None\<close> here, and the function doing so ends with the outcome that says so: what
  the C program does there is stale stack content or undefined.
\<close>

definition get_u8 :: "byte list \<Rightarrow> nat \<Rightarrow> byte option" where
  "get_u8 buf off = (if off < length buf then Some (buf ! off) else None)"

definition get_bytes :: "byte list \<Rightarrow> nat \<Rightarrow> nat \<Rightarrow> byte list option" where
  "get_bytes buf off n =
     (if off + n \<le> length buf then Some (take n (drop off buf)) else None)"

text \<open>A multi-byte integer field is read in the byte order of the host.\<close>

fun le_word :: "byte list \<Rightarrow> 'a::len word" where
  "le_word [] = 0"
| "le_word (b # bs) = ucast b OR push_bit 8 (le_word bs)"

definition host_word :: "platform \<Rightarrow> byte list \<Rightarrow> 'a::len word" where
  "host_word P bs = le_word (if big_endian P then rev bs else bs)"

definition get_u16 :: "platform \<Rightarrow> byte list \<Rightarrow> nat \<Rightarrow> 16 word option" where
  "get_u16 P buf off = map_option (host_word P) (get_bytes buf off 2)"

definition get_u32 :: "platform \<Rightarrow> byte list \<Rightarrow> nat \<Rightarrow> 32 word option" where
  "get_u32 P buf off = map_option (host_word P) (get_bytes buf off 4)"

subsection \<open>Field offsets\<close>

text \<open>
  Offsets of the fields of \<^verbatim>\<open>struct rt_msghdr\<close> (\<^verbatim>\<open>rtm_msglen\<close> is its first member, a
  \<^verbatim>\<open>u_short\<close>, which is what the decoder's \<^verbatim>\<open>sizeof(u_short)\<close> test relies on), of
  \<^verbatim>\<open>struct sockaddr\<close> and of the address structures, as the kernel lays them out.
\<close>

definition off_rtm_msglen :: nat where "off_rtm_msglen = 0"
definition off_rtm_version :: nat where "off_rtm_version = 2"
definition off_rtm_type :: nat where "off_rtm_type = 3"
definition off_rtm_hdrlen :: nat where "off_rtm_hdrlen = 4"
definition off_rtm_index :: nat where "off_rtm_index = 6"
definition off_rtm_priority :: nat where "off_rtm_priority = 10"
definition off_rtm_addrs :: nat where "off_rtm_addrs = 12"
definition off_rtm_flags :: nat where "off_rtm_flags = 16"
definition off_rtm_seq :: nat where "off_rtm_seq = 28"
definition off_rtm_inits :: nat where "off_rtm_inits = 36"
definition off_rmx_mtu :: nat where "off_rmx_mtu = 60"

definition off_sa_len :: nat where "off_sa_len = 0"
definition off_sa_family :: nat where "off_sa_family = 1"
definition off_sin_addr :: nat where "off_sin_addr = 4"
definition off_sin6_addr :: nat where "off_sin6_addr = 8"
definition off_sr_static :: nat where "off_sr_static = 2"
definition off_sr_search :: nat where "off_sr_search = 2"

section \<open>Walking the address records: \<^verbatim>\<open>ROUNDUP\<close> and \<^verbatim>\<open>get_rtaddrs\<close>\<close>

text \<open>
  \<^verbatim>\<open>#define ROUNDUP(a) (((a) & (sizeof(long) - 1)) ? (1 + ((a) | (sizeof(long) - 1))) : (a))\<close>

  The argument is \<^verbatim>\<open>sa->sa_len\<close>, an unsigned byte, and the arithmetic is done in
  \<^verbatim>\<open>size_t\<close>: nothing wraps, so natural numbers model it.
\<close>

definition ROUNDUP :: "platform \<Rightarrow> nat \<Rightarrow> nat" where
  "ROUNDUP P a =
     (if a AND (sizeof_long P - 1) \<noteq> 0 then 1 + (a OR (sizeof_long P - 1)) else a)"

text \<open>
  The loop \<^verbatim>\<open>for (i = 0; i < RTAX_MAX; i++)\<close> of \<^verbatim>\<open>get_rtaddrs\<close>, from the state it
  has at the top of an iteration: the index \<open>i\<close>, the cursor \<open>sa\<close> (an offset into the
  buffer), the flag \<open>v6\<close> and the array \<open>rti_info\<close> (slot index to the record's offset,
  \<open>None\<close> for \<^verbatim>\<open>NULL\<close>). The result is \<open>None\<close> when the loop reads \<^verbatim>\<open>sa->sa_family\<close>
  or \<^verbatim>\<open>sa->sa_len\<close> outside the bytes that were read.
\<close>

type_synonym rti = "nat \<Rightarrow> nat option"

function get_rtaddrs_from ::
  "platform \<Rightarrow> byte list \<Rightarrow> 32 word \<Rightarrow> nat \<Rightarrow> nat \<Rightarrow> int \<Rightarrow> rti \<Rightarrow> (int \<times> rti) option" where
  "get_rtaddrs_from P buf addrs i sa v6 rti_info =
     (if i < RTAX_MAX P then
        (if addrs AND push_bit i 1 \<noteq> 0 then
           (case get_u8 buf (sa + off_sa_family) of
              None \<Rightarrow> None
            | Some fam \<Rightarrow>
               (case get_u8 buf (sa + off_sa_len) of
                  None \<Rightarrow> None
                | Some len \<Rightarrow>
                    get_rtaddrs_from P buf addrs (i + 1) (sa + ROUNDUP P (unat len))
                      (if fam = AF_INET P then 0 else v6) (rti_info(i := Some sa))))
         else get_rtaddrs_from P buf addrs (i + 1) sa v6 (rti_info(i := None)))
      else Some (v6, rti_info))"
  by pat_completeness auto
termination
  by (relation "measure (\<lambda>(P, buf, addrs, i, sa, v6, rti_info). RTAX_MAX P - i)") auto

definition get_rtaddrs :: "platform \<Rightarrow> byte list \<Rightarrow> 32 word \<Rightarrow> nat \<Rightarrow> (int \<times> rti) option" where
  "get_rtaddrs P buf addrs sa = get_rtaddrs_from P buf addrs 0 sa 1 (\<lambda>i. None)"


section \<open>Proposals: \<^verbatim>\<open>forward_v4proposal\<close> and \<^verbatim>\<open>forward_v6proposal\<close>\<close>

text \<open>
  Modelled from the spec: \<^verbatim>\<open>struct imsg_v4proposal\<close> is declared in \<^verbatim>\<open>netcfgd.h\<close>, which
  is not among the source files. The record has the fields the two functions assign, which
  are the fields the specification lists for a Proposal; a scalar keeps the type of the
  header field it is copied from, and an address or blob field is the list of its bytes,
  whose number (\<^verbatim>\<open>sizeof(proposal.gateway)\<close> and so on) comes from the platform record.
\<close>

record imsg_v4proposal =
  proposal_addrs :: "32 word"
  proposal_inits :: "32 word"
  proposal_flags :: "32 word"
  proposal_xid :: "32 word"
  proposal_index :: "16 word"
  proposal_source :: byte
  proposal_mtu :: "32 word"
  proposal_rtstatic :: "byte list"
  proposal_rtsearch :: "byte list"
  proposal_rtsearch_encoded :: int
  proposal_gateway :: "byte list"
  proposal_ifa :: "byte list"
  proposal_netmask :: "byte list"
  proposal_dns1 :: "byte list"
  proposal_dns2 :: "byte list"
  proposal_dns3 :: "byte list"
  proposal_dns4 :: "byte list"

text \<open>\<^verbatim>\<open>memset(&proposal, 0, sizeof(proposal))\<close>\<close>

definition zeroed_proposal :: "platform \<Rightarrow> imsg_v4proposal" where
  "zeroed_proposal P =
     \<lparr> proposal_addrs = 0, proposal_inits = 0, proposal_flags = 0, proposal_xid = 0,
       proposal_index = 0, proposal_source = 0, proposal_mtu = 0,
       proposal_rtstatic = replicate (sizeof_rtstatic P) 0,
       proposal_rtsearch = replicate (sizeof_rtsearch P) 0,
       proposal_rtsearch_encoded = 0,
       proposal_gateway = replicate (sizeof_addr P) 0,
       proposal_ifa = replicate (sizeof_addr P) 0,
       proposal_netmask = replicate (sizeof_addr P) 0,
       proposal_dns1 = replicate (sizeof_addr P) 0,
       proposal_dns2 = replicate (sizeof_addr P) 0,
       proposal_dns3 = replicate (sizeof_addr P) 0,
       proposal_dns4 = replicate (sizeof_addr P) 0 \<rparr>"

text \<open>
  \<^verbatim>\<open>if (rti_info[slot] != NULL) memcpy(&field, (char *)rti_info[slot] + off, sizeof(field));\<close>
  The field keeps its value \<open>cur\<close> when the slot is \<^verbatim>\<open>NULL\<close>.
\<close>

definition copy_slot ::
  "byte list \<Rightarrow> rti \<Rightarrow> nat \<Rightarrow> nat \<Rightarrow> byte list \<Rightarrow> byte list option" where
  "copy_slot buf rti_info slot off cur =
     (case rti_info slot of
        None \<Rightarrow> Some cur
      | Some p \<Rightarrow> get_bytes buf (p + off) (length cur))"

text \<open>
  The body the two functions share, statement by statement. They differ in the structure
  the address bytes are taken from (\<^verbatim>\<open>sin_addr\<close> of a \<^verbatim>\<open>sockaddr_in\<close>, \<^verbatim>\<open>sin6_addr\<close> of a
  \<^verbatim>\<open>sockaddr_in6\<close>), which is the offset \<open>off_addr\<close> here, and in the message type. Both
  declare their proposal as a \<^verbatim>\<open>struct imsg_v4proposal\<close>. \<open>rtm\<close> is the offset of the
  message header in the buffer.
\<close>

definition fill_proposal ::
  "platform \<Rightarrow> nat \<Rightarrow> byte list \<Rightarrow> nat \<Rightarrow> rti \<Rightarrow> imsg_v4proposal option" where
  "fill_proposal P off_addr buf rtm rti_info = do {
     let proposal = zeroed_proposal P;
     addrs \<leftarrow> get_u32 P buf (rtm + off_rtm_addrs);
     inits \<leftarrow> get_u32 P buf (rtm + off_rtm_inits);
     flags \<leftarrow> get_u32 P buf (rtm + off_rtm_flags);
     seq \<leftarrow> get_u32 P buf (rtm + off_rtm_seq);
     index \<leftarrow> get_u16 P buf (rtm + off_rtm_index);
     priority \<leftarrow> get_u8 buf (rtm + off_rtm_priority);
     mtu \<leftarrow> (if inits AND RTV_MTU P \<noteq> 0 then get_u32 P buf (rtm + off_rmx_mtu)
              else Some (proposal_mtu proposal));
     rtstatic \<leftarrow> copy_slot buf rti_info (RTAX_STATIC P) off_sr_static
                  (proposal_rtstatic proposal);
     encoded \<leftarrow> (case rti_info (RTAX_SEARCH P) of
                   None \<Rightarrow> Some (proposal_rtsearch_encoded proposal)
                 | Some p \<Rightarrow> map_option
                     (\<lambda>fam. if fam = AF_INET6 P then 1 else proposal_rtsearch_encoded proposal)
                     (get_u8 buf (p + off_sa_family)));
     rtsearch \<leftarrow> copy_slot buf rti_info (RTAX_SEARCH P) off_sr_search
                  (proposal_rtsearch proposal);
     gateway \<leftarrow> copy_slot buf rti_info (RTAX_GATEWAY P) off_addr (proposal_gateway proposal);
     ifa \<leftarrow> copy_slot buf rti_info (RTAX_IFA P) off_addr (proposal_ifa proposal);
     netmask \<leftarrow> copy_slot buf rti_info (RTAX_NETMASK P) off_addr (proposal_netmask proposal);
     dns1 \<leftarrow> copy_slot buf rti_info (RTAX_DNS1 P) off_addr (proposal_dns1 proposal);
     dns2 \<leftarrow> copy_slot buf rti_info (RTAX_DNS2 P) off_addr (proposal_dns2 proposal);
     dns3 \<leftarrow> copy_slot buf rti_info (RTAX_DNS3 P) off_addr (proposal_dns3 proposal);
     dns4 \<leftarrow> copy_slot buf rti_info (RTAX_DNS4 P) off_addr (proposal_dns4 proposal);
     Some \<lparr> proposal_addrs = addrs, proposal_inits = inits, proposal_flags = flags,
            proposal_xid = seq, proposal_index = index, proposal_source = priority,
            proposal_mtu = mtu, proposal_rtstatic = rtstatic, proposal_rtsearch = rtsearch,
            proposal_rtsearch_encoded = encoded, proposal_gateway = gateway,
            proposal_ifa = ifa, proposal_netmask = netmask, proposal_dns1 = dns1,
            proposal_dns2 = dns2, proposal_dns3 = dns3, proposal_dns4 = dns4 \<rparr>
   }"

text \<open>
  The message types of \<^verbatim>\<open>enum imsg_type\<close> that the source files name (the enumeration
  of \<^verbatim>\<open>newd.h\<close> and the types declared in the headers that are not among the sources).
\<close>

datatype imsg_type =
    IMSG_NONE
  | IMSG_CTL_RELOAD
  | IMSG_CTL_LOG_VERBOSE
  | IMSG_RECONF_CONF
  | IMSG_RECONF_END
  | IMSG_RECONF_GROUP
  | IMSG_CTL_SHOW_MAIN_INFO
  | IMSG_CTL_END
  | IMSG_SOCKET_IPC
  | IMSG_SEND_V4PROPOSAL
  | IMSG_SEND_V6PROPOSAL
  | IMSG_UNKNOWN nat

text \<open>
  Each function ends with \<^verbatim>\<open>main_imsg_compose_engine(type, 0, &proposal, sizeof(proposal))\<close>;
  the model returns the type and the proposal of that call.
\<close>

definition forward_v4proposal ::
  "platform \<Rightarrow> byte list \<Rightarrow> nat \<Rightarrow> rti \<Rightarrow> (imsg_type \<times> imsg_v4proposal) option" where
  "forward_v4proposal P buf rtm rti_info =
     map_option (Pair IMSG_SEND_V4PROPOSAL) (fill_proposal P off_sin_addr buf rtm rti_info)"

definition forward_v6proposal ::
  "platform \<Rightarrow> byte list \<Rightarrow> nat \<Rightarrow> rti \<Rightarrow> (imsg_type \<times> imsg_v4proposal) option" where
  "forward_v6proposal P buf rtm rti_info =
     map_option (Pair IMSG_SEND_V6PROPOSAL) (fill_proposal P off_sin6_addr buf rtm rti_info)"

section \<open>The decode loop of \<^verbatim>\<open>kr_dispatch_msg\<close>\<close>

text \<open>
  What a handler does that is visible outside it, in the order it does it. \<open>Stale_body\<close>
  stands for what the body of one iteration of the decode loop logs and forwards when it
  reads bytes outside those received: that depends on bytes that are no part of the
  input.
\<close>

datatype log_arg = Arg_str string | Arg_int int

datatype event =
    Log_warn string
  | Log_warnx string "log_arg list"
  | Event_loopexit
  | Compose_engine imsg_type imsg_v4proposal
  | Stale_body

text \<open>
  How a run of a handler ends: it returns to the event loop, it calls \<^verbatim>\<open>fatal\<close> or
  \<^verbatim>\<open>fatalx\<close> (which log the message and exit the process), or the model's fuel runs out
  before the C loop has ended.
\<close>

datatype outcome = Returned | Fatal string | Out_of_fuel

text \<open>
  One iteration of the \<^verbatim>\<open>for\<close> loop, entered with \<open>offset < len\<close>: it ends in
  \<^verbatim>\<open>fatalx\<close>, or it reaches the loop's increment \<^verbatim>\<open>offset += rtm->rtm_msglen\<close> (also
  through \<^verbatim>\<open>continue\<close>) with the events its body produced, \<open>None\<close> when the body read
  outside the bytes received.
\<close>

datatype iteration = Iter_fatalx string | Iter_next nat "event list option"

text \<open>
  The statements of the loop body after the test for a partial message, from
  \<^verbatim>\<open>if (rtm->rtm_version != RTM_VERSION) continue;\<close> to the end of the \<^verbatim>\<open>switch\<close>: the
  events they produce, or \<open>None\<close> for a read outside the bytes received.
\<close>

definition kr_msg_body :: "platform \<Rightarrow> byte list \<Rightarrow> nat \<Rightarrow> event list option" where
  "kr_msg_body P buf offset = do {
     version \<leftarrow> get_u8 buf (offset + off_rtm_version);
     if version \<noteq> RTM_VERSION P then Some []
     else do {
       hdrlen \<leftarrow> get_u16 P buf (offset + off_rtm_hdrlen);
       addrs \<leftarrow> get_u32 P buf (offset + off_rtm_addrs);
       (v6, rti_info) \<leftarrow> get_rtaddrs P buf addrs (offset + unat hdrlen);
       type \<leftarrow> get_u8 buf (offset + off_rtm_type);
       if type = RTM_PROPOSAL P then do {
         priority \<leftarrow> get_u8 buf (offset + off_rtm_priority);
         (kind, proposal) \<leftarrow>
           (if v6 \<noteq> 0 then forward_v6proposal P buf offset rti_info
            else forward_v4proposal P buf offset rti_info);
         Some [Log_warnx ''I see a %s RTM_PROPOSAL from %d!''
                 [Arg_str (if v6 \<noteq> 0 then ''IPv6'' else ''IPv4''), Arg_int (uint priority)],
               Compose_engine kind proposal]
       }
       else Some []
     }
   }"

text \<open>
  \<^verbatim>\<open>rtm->rtm_msglen\<close>, which the loop reads in its second test and in its increment. Both
  come after the first test, \<^verbatim>\<open>len < offset + sizeof(u_short)\<close>, has failed, so the two
  bytes of the field are among the bytes received.
\<close>

definition rtm_msglen_at :: "platform \<Rightarrow> byte list \<Rightarrow> nat \<Rightarrow> 16 word" where
  "rtm_msglen_at P buf offset = host_word P (take 2 (drop (offset + off_rtm_msglen) buf))"

definition kr_msg :: "platform \<Rightarrow> byte list \<Rightarrow> nat \<Rightarrow> iteration" where
  "kr_msg P buf offset =
     (if length buf < offset + 2 then Iter_fatalx ''rtmsg_process: partial rtm in buffer''
      else if length buf < offset + unat (rtm_msglen_at P buf offset)
      then Iter_fatalx ''rtmsg_process: partial rtm in buffer''
      else Iter_next (unat (rtm_msglen_at P buf offset)) (kr_msg_body P buf offset))"

text \<open>
  \<^verbatim>\<open>for (offset = 0; offset < len; offset += rtm->rtm_msglen)\<close>, from the state at the
  loop's test. The loop leaves only through \<^verbatim>\<open>fatalx\<close> or its test: an iteration whose
  body read outside the bytes received goes on to the increment like any other. The C
  loop has no bound on the number of its iterations; the model's first argument after
  the platform is the number of iterations it may still start.
\<close>

fun kr_loop :: "platform \<Rightarrow> nat \<Rightarrow> byte list \<Rightarrow> nat \<Rightarrow> event list \<Rightarrow> outcome \<times> event list" where
  "kr_loop P 0 buf offset evs = (Out_of_fuel, evs)"
| "kr_loop P (Suc fuel) buf offset evs =
     (if offset < length buf then
        (case kr_msg P buf offset of
           Iter_fatalx msg \<Rightarrow> (Fatal msg, evs)
         | Iter_next msglen body \<Rightarrow>
             kr_loop P fuel buf (offset + msglen)
               (evs @ (case body of None \<Rightarrow> [Stale_body] | Some es \<Rightarrow> es)))
      else (Returned, evs))"

text \<open>
  \<^verbatim>\<open>kr_dispatch_msg\<close>. The result of \<^verbatim>\<open>read(2)\<close> is the input: \<open>-1\<close> with \<^verbatim>\<open>errno\<close>, or
  the bytes read (none when the socket was closed).
\<close>

datatype errno = EAGAIN | EINTR | EPIPE | EIO | ENOBUFS

datatype read_result = Read_error errno | Read_bytes "byte list"

definition kr_dispatch_msg :: "platform \<Rightarrow> nat \<Rightarrow> read_result \<Rightarrow> outcome \<times> event list" where
  "kr_dispatch_msg P fuel r =
     (case r of
        Read_error e \<Rightarrow>
          if e = EAGAIN \<or> e = EINTR then (Returned, [])
          else (Returned, [Log_warn ''dispatch_rtmsg: read error'', Event_loopexit])
      | Read_bytes buf \<Rightarrow>
          if length buf = 0
          then (Returned, [Log_warnx ''routing socket closed'' [], Event_loopexit])
          else kr_loop P fuel buf 0 [])"

text \<open>The offsets at which the loop starts an iteration or ends.\<close>

inductive_set msg_offsets :: "platform \<Rightarrow> byte list \<Rightarrow> nat set" for P buf where
  first: "0 \<in> msg_offsets P buf"
| step: "offset \<in> msg_offsets P buf \<Longrightarrow> offset < length buf \<Longrightarrow>
         kr_msg P buf offset = Iter_next msglen body \<Longrightarrow> offset + msglen \<in> msg_offsets P buf"


section \<open>The installer: \<^verbatim>\<open>netcfgd_v4.c\<close>\<close>

subsection \<open>The route message header\<close>

text \<open>
  \<^verbatim>\<open>struct rt_msghdr\<close> with its members in the order and with the widths of the kernel's
  declaration; \<^verbatim>\<open>rtm_rmx\<close>, the metrics, is kept as its 56 bytes. \<open>rtm_bytes\<close> is the
  object as it lies in memory, which is what \<^verbatim>\<open>writev\<close> sends: the fields are at the
  offsets the decoder reads them from.
\<close>

record rt_msghdr =
  rtm_msglen :: "16 word"
  rtm_version :: byte
  rtm_type :: byte
  rtm_hdrlen :: "16 word"
  rtm_index :: "16 word"
  rtm_tableid :: "16 word"
  rtm_priority :: byte
  rtm_mpls :: byte
  rtm_addrs :: "32 word"
  rtm_flags :: "32 word"
  rtm_fmask :: "32 word"
  rtm_pid :: "32 word"
  rtm_seq :: "32 word"
  rtm_errno :: "32 word"
  rtm_inits :: "32 word"
  rtm_rmx :: "byte list"

definition sizeof_rt_msghdr :: nat where
  "sizeof_rt_msghdr = 96"

text \<open>\<^verbatim>\<open>memset(&rtm, 0, sizeof(rtm))\<close>\<close>

definition zeroed_rtm :: rt_msghdr where
  "zeroed_rtm =
     \<lparr> rtm_msglen = 0, rtm_version = 0, rtm_type = 0, rtm_hdrlen = 0, rtm_index = 0,
       rtm_tableid = 0, rtm_priority = 0, rtm_mpls = 0, rtm_addrs = 0, rtm_flags = 0,
       rtm_fmask = 0, rtm_pid = 0, rtm_seq = 0, rtm_errno = 0, rtm_inits = 0,
       rtm_rmx = replicate 56 0 \<rparr>"

fun le_bytes :: "nat \<Rightarrow> 'a::len word \<Rightarrow> byte list" where
  "le_bytes 0 w = []"
| "le_bytes (Suc n) w = ucast w # le_bytes n (drop_bit 8 w)"

definition host_bytes :: "platform \<Rightarrow> nat \<Rightarrow> 'a::len word \<Rightarrow> byte list" where
  "host_bytes P n w = (if big_endian P then rev (le_bytes n w) else le_bytes n w)"

definition rtm_bytes :: "platform \<Rightarrow> rt_msghdr \<Rightarrow> byte list" where
  "rtm_bytes P rtm =
     host_bytes P 2 (rtm_msglen rtm) @ [rtm_version rtm, rtm_type rtm] @
     host_bytes P 2 (rtm_hdrlen rtm) @ host_bytes P 2 (rtm_index rtm) @
     host_bytes P 2 (rtm_tableid rtm) @ [rtm_priority rtm, rtm_mpls rtm] @
     host_bytes P 4 (rtm_addrs rtm) @ host_bytes P 4 (rtm_flags rtm) @
     host_bytes P 4 (rtm_fmask rtm) @ host_bytes P 4 (rtm_pid rtm) @
     host_bytes P 4 (rtm_seq rtm) @ host_bytes P 4 (rtm_errno rtm) @
     host_bytes P 4 (rtm_inits rtm) @ take 56 (rtm_rmx rtm)"

subsection \<open>Requests and the scatter list\<close>

text \<open>
  Modelled from the spec: the request structures \<^verbatim>\<open>imsg_delete_v4address\<close>,
  \<^verbatim>\<open>imsg_add_v4address\<close>, \<^verbatim>\<open>imsg_delete_v4route\<close> and \<^verbatim>\<open>imsg_add_v4route\<close> are declared in
  \<^verbatim>\<open>netcfgd.h\<close>, which is not among the source files. Each record has the members the
  functions read. An address member is the list of the bytes of its object
  (a \<^verbatim>\<open>struct sockaddr_in\<close>), so \<^verbatim>\<open>sizeof\<close> of the member is the length of the list; a
  scalar member has the type of the header field it is assigned to.
\<close>

record imsg_delete_v4address =
  dv4a_name :: "byte list"
  dv4a_addr :: "byte list"

record imsg_add_v4address =
  av4a_name :: "byte list"
  av4a_addr :: "byte list"
  av4a_mask :: "byte list"

record imsg_delete_v4route =
  dv4_index :: "16 word"
  dv4_rdomain :: "16 word"
  dv4_dest :: "byte list"
  dv4_gateway :: "byte list"
  dv4_netmask :: "byte list"

record imsg_add_v4route =
  av4_rdomain :: "16 word"
  av4_addrs :: "32 word"
  av4_flags :: "32 word"
  av4_dest :: "byte list"
  av4_gateway :: "byte list"
  av4_netmask :: "byte list"
  av4_ifa :: "byte list"

text \<open>
  An \<^verbatim>\<open>iovec\<close> holds the address of a local object and a length. The header is entered
  into the array before its \<^verbatim>\<open>rtm_msglen\<close> is final, so the model keeps the address as a
  name and looks the object up when \<^verbatim>\<open>writev\<close> is called.
\<close>

datatype iov_base = Iov_rtm | Iov_dest | Iov_gateway | Iov_netmask | Iov_ifa

type_synonym iovec = "iov_base \<times> nat"

record route_objects =
  obj_rtm :: rt_msghdr
  obj_dest :: "byte list"
  obj_gateway :: "byte list"
  obj_netmask :: "byte list"
  obj_ifa :: "byte list"

definition iov_bytes :: "platform \<Rightarrow> route_objects \<Rightarrow> iovec \<Rightarrow> byte list" where
  "iov_bytes P objs v =
     take (snd v)
       (case fst v of
          Iov_rtm \<Rightarrow> rtm_bytes P (obj_rtm objs)
        | Iov_dest \<Rightarrow> obj_dest objs
        | Iov_gateway \<Rightarrow> obj_gateway objs
        | Iov_netmask \<Rightarrow> obj_netmask objs
        | Iov_ifa \<Rightarrow> obj_ifa objs)"

text \<open>The bytes \<^verbatim>\<open>writev(fd, iov, iovcnt)\<close> is asked to write, in order.\<close>

definition gather :: "platform \<Rightarrow> route_objects \<Rightarrow> iovec list \<Rightarrow> byte list" where
  "gather P objs iov = concat (map (iov_bytes P objs) iov)"

text \<open>
  What the installer does that is visible outside it. The return value of each system
  call is an input of the model.
\<close>

record ifaliasreq =
  ifra_name :: "byte list"
  ifra_addr :: "byte list"
  ifra_dstaddr :: "byte list"
  ifra_mask :: "byte list"

datatype sys_event =
    Writev_route "byte list"
  | Ioctl_SIOCDIFADDR ifaliasreq
  | Ioctl_SIOCAIFADDR ifaliasreq
  | Sys_log_warn string "byte list"

subsection \<open>\<^verbatim>\<open>netcfgd_delete_v4route\<close>\<close>

text \<open>
  \<open>seqno\<close> is the function's \<^verbatim>\<open>static int\<close>; the function returns its new value next to
  the events. \<open>ret\<close> is what \<^verbatim>\<open>writev\<close> returns.
\<close>

definition netcfgd_delete_v4route ::
  "platform \<Rightarrow> 32 word \<Rightarrow> imsg_delete_v4route \<Rightarrow> int \<Rightarrow> sys_event list \<times> 32 word" where
  "netcfgd_delete_v4route P seqno dv4 ret =
     (let rtm = zeroed_rtm;
          rtm = rtm\<lparr>rtm_version := RTM_VERSION P\<rparr>;
          rtm = rtm\<lparr>rtm_type := RTM_DELETE P\<rparr>;
          rtm = rtm\<lparr>rtm_addrs := RTA_DST P OR RTA_GATEWAY P OR RTA_NETMASK P\<rparr>;
          rtm = rtm\<lparr>rtm_seq := seqno\<rparr>;
          seqno = seqno + 1;
          rtm = rtm\<lparr>rtm_index := dv4_index dv4\<rparr>;
          rtm = rtm\<lparr>rtm_tableid := dv4_rdomain dv4\<rparr>;
          iov = [(Iov_rtm, sizeof_rt_msghdr)];
          iov = iov @ [(Iov_dest, length (dv4_dest dv4))];
          rtm = rtm\<lparr>rtm_msglen := rtm_msglen rtm + of_nat (length (dv4_dest dv4))\<rparr>;
          iov = iov @ [(Iov_gateway, length (dv4_gateway dv4))];
          rtm = rtm\<lparr>rtm_msglen := rtm_msglen rtm + of_nat (length (dv4_gateway dv4))\<rparr>;
          iov = iov @ [(Iov_netmask, length (dv4_netmask dv4))];
          rtm = rtm\<lparr>rtm_msglen := rtm_msglen rtm + of_nat (length (dv4_netmask dv4))\<rparr>;
          objs = \<lparr> obj_rtm = rtm, obj_dest = dv4_dest dv4, obj_gateway = dv4_gateway dv4,
                   obj_netmask = dv4_netmask dv4, obj_ifa = [] \<rparr>
      in (Writev_route (gather P objs iov) #
            (if ret = -1 then [Sys_log_warn ''v4_delete_route'' []] else []),
          seqno))"

subsection \<open>\<^verbatim>\<open>netcfgd_add_v4route\<close>\<close>

text \<open>
  The scatter list and the header as they are when \<^verbatim>\<open>writev\<close> is called. Each
  \<^verbatim>\<open>if ((av4.addrs & RTA_x) != 0)\<close> appends one entry and adds its length to
  \<^verbatim>\<open>rtm_msglen\<close>.
\<close>

definition attach ::
  "bool \<Rightarrow> iov_base \<Rightarrow> byte list \<Rightarrow> iovec list \<times> rt_msghdr \<Rightarrow> iovec list \<times> rt_msghdr" where
  "attach cond base obj st =
     (if cond
      then (fst st @ [(base, length obj)],
            (snd st)\<lparr>rtm_msglen := rtm_msglen (snd st) + of_nat (length obj)\<rparr>)
      else st)"

definition add_v4route_build ::
  "platform \<Rightarrow> imsg_add_v4route \<Rightarrow> iovec list \<times> rt_msghdr" where
  "add_v4route_build P av4 =
     (let rtm = zeroed_rtm;
          rtm = rtm\<lparr>rtm_version := RTM_VERSION P\<rparr>;
          rtm = rtm\<lparr>rtm_type := RTM_ADD P\<rparr>;
          rtm = rtm\<lparr>rtm_priority := RTP_NONE P\<rparr>;
          rtm = rtm\<lparr>rtm_msglen := of_nat sizeof_rt_msghdr\<rparr>;
          rtm = rtm\<lparr>rtm_tableid := av4_rdomain av4\<rparr>;
          rtm = rtm\<lparr>rtm_addrs := av4_addrs av4\<rparr>;
          rtm = rtm\<lparr>rtm_flags := av4_flags av4\<rparr>;
          st = ([(Iov_rtm, sizeof_rt_msghdr)], rtm);
          st = attach (av4_addrs av4 AND RTA_DST P \<noteq> 0) Iov_dest (av4_dest av4) st;
          st = attach (av4_addrs av4 AND RTA_GATEWAY P \<noteq> 0) Iov_gateway (av4_gateway av4) st;
          st = attach (av4_addrs av4 AND RTA_NETMASK P \<noteq> 0) Iov_netmask (av4_netmask av4) st;
          st = attach (av4_addrs av4 AND RTA_IFA P \<noteq> 0) Iov_ifa (av4_ifa av4) st
      in st)"

definition netcfgd_add_v4route :: "platform \<Rightarrow> imsg_add_v4route \<Rightarrow> int \<Rightarrow> sys_event list" where
  "netcfgd_add_v4route P av4 ret =
     (let (iov, rtm) = add_v4route_build P av4;
          objs = \<lparr> obj_rtm = rtm, obj_dest = av4_dest av4, obj_gateway = av4_gateway av4,
                   obj_netmask = av4_netmask av4, obj_ifa = av4_ifa av4 \<rparr>
      in Writev_route (gather P objs iov) #
           (if ret \<noteq> -1 then [Sys_log_warn ''v4_add_route'' []] else []))"

text \<open>
  The specification's words for the payloads of an add-route message, to compare the
  function with: of destination, gateway, netmask and interface address, in this order,
  those whose bit is set in the request's bitmap.
\<close>

definition attached_payloads :: "platform \<Rightarrow> imsg_add_v4route \<Rightarrow> byte list list" where
  "attached_payloads P av4 =
     (if av4_addrs av4 AND RTA_DST P \<noteq> 0 then [av4_dest av4] else []) @
     (if av4_addrs av4 AND RTA_GATEWAY P \<noteq> 0 then [av4_gateway av4] else []) @
     (if av4_addrs av4 AND RTA_NETMASK P \<noteq> 0 then [av4_netmask av4] else []) @
     (if av4_addrs av4 AND RTA_IFA P \<noteq> 0 then [av4_ifa av4] else [])"

text \<open>The warnings among the events of an installer function.\<close>

fun is_warning :: "sys_event \<Rightarrow> bool" where
  "is_warning (Sys_log_warn fmt arg) = True"
| "is_warning e = False"

definition warnings :: "sys_event list \<Rightarrow> sys_event list" where
  "warnings evs = filter is_warning evs"

subsection \<open>\<^verbatim>\<open>netcfgd_delete_v4address\<close> and \<^verbatim>\<open>netcfgd_add_v4address\<close>\<close>

text \<open>
  \<^verbatim>\<open>strncpy(dst, src, n)\<close>: the bytes of \<open>src\<close> before its first NUL, cut at \<open>n\<close>, padded
  with NUL to \<open>n\<close> bytes. \<^verbatim>\<open>memcpy(dst, src, n)\<close> replaces the first \<open>n\<close> bytes of \<open>dst\<close>.
\<close>

definition strncpy :: "byte list \<Rightarrow> nat \<Rightarrow> byte list" where
  "strncpy src n =
     (let s = take n (takeWhile (\<lambda>c. c \<noteq> 0) src) in s @ replicate (n - length s) 0)"

definition memcpy :: "byte list \<Rightarrow> byte list \<Rightarrow> nat \<Rightarrow> byte list" where
  "memcpy dst src n = take n src @ drop n dst"

definition zeroed_ifaliasreq :: "platform \<Rightarrow> ifaliasreq" where
  "zeroed_ifaliasreq P =
     \<lparr> ifra_name = replicate (sizeof_ifra_name P) 0,
       ifra_addr = replicate (sizeof_sockaddr_in P) 0,
       ifra_dstaddr = replicate (sizeof_sockaddr_in P) 0,
       ifra_mask = replicate (sizeof_sockaddr_in P) 0 \<rparr>"

text \<open>The argument of \<^verbatim>\<open>inet_ntoa\<close> in the warnings: the \<^verbatim>\<open>sin_addr\<close> of a \<^verbatim>\<open>sockaddr_in\<close>.\<close>

definition sin_addr :: "byte list \<Rightarrow> byte list" where
  "sin_addr sa = take 4 (drop off_sin_addr sa)"

definition netcfgd_delete_v4address ::
  "platform \<Rightarrow> imsg_delete_v4address \<Rightarrow> int \<Rightarrow> sys_event list" where
  "netcfgd_delete_v4address P dv4 ret =
     (let req = zeroed_ifaliasreq P;
          req = req\<lparr>ifra_name := strncpy (dv4a_name dv4) (sizeof_ifra_name P)\<rparr>;
          req = req\<lparr>ifra_addr := memcpy (ifra_addr req) (dv4a_addr dv4) (sizeof_sockaddr_in P)\<rparr>
      in Ioctl_SIOCDIFADDR req #
           (if ret = -1 then [Sys_log_warn ''v4_delete_address %s'' (sin_addr (ifra_addr req))]
            else []))"

definition netcfgd_add_v4address ::
  "platform \<Rightarrow> imsg_add_v4address \<Rightarrow> int \<Rightarrow> sys_event list" where
  "netcfgd_add_v4address P av4 ret =
     (let req = zeroed_ifaliasreq P;
          req = req\<lparr>ifra_name := strncpy (av4a_name av4) (sizeof_ifra_name P)\<rparr>;
          req = req\<lparr>ifra_addr := memcpy (ifra_addr req) (av4a_addr av4) (sizeof_sockaddr_in P)\<rparr>;
          req = req\<lparr>ifra_mask := memcpy (ifra_mask req) (av4a_mask av4) (sizeof_sockaddr_in P)\<rparr>
      in Ioctl_SIOCAIFADDR req #
           (if ret = -1 then [Sys_log_warn ''v4_add_address %s'' (sin_addr (av4a_addr av4))]
            else []))"

section \<open>The parent's channels: \<^verbatim>\<open>main_dispatch_frontend\<close> and \<^verbatim>\<open>main_dispatch_engine\<close>\<close>

text \<open>
  The handlers call into the imsg library, libevent and the configuration parser, which
  are not part of the repository; what these calls return is the input of the model.
  \<^item> \<^verbatim>\<open>imsg_read\<close> and \<^verbatim>\<open>msgbuf_write\<close> return \<open>-1\<close> with \<^verbatim>\<open>errno\<close> set, or a count.
  \<^item> Each call of \<^verbatim>\<open>imsg_get\<close> returns \<open>-1\<close>, or a message, or \<open>0\<close> when the read buffer
    holds no further complete message; the list \<open>gets\<close> gives the results of the
    successive calls that are not \<open>0\<close>, and the call after the last of them returns \<open>0\<close>.
    A message is its type, the integer at the start of its payload, and what
    \<^verbatim>\<open>parse_config\<close> returns if \<^verbatim>\<open>main_reload\<close> is called for it: \<open>None\<close> for \<^verbatim>\<open>NULL\<close>, or
    the group list of the new configuration.
  \<^item> \<open>compose k\<close> is what the \<open>k\<close>-th call of \<^verbatim>\<open>imsg_compose\<close> in a run returns; the
    functions that call it take the number of calls made so far and give it back.
  The parent's \<^verbatim>\<open>iev_frontend\<close> and \<^verbatim>\<open>iev_engine\<close> are set before its event loop starts,
  so the tests for \<^verbatim>\<open>NULL\<close> in \<^verbatim>\<open>main_imsg_compose_frontend\<close> pass.
\<close>

datatype io_result = Io_error errno | Io_count nat

datatype imsg_get_result = Get_error | Get_imsg imsg_type int "nat list option"

datatype channel = Frontend | Engine

datatype payload = No_payload | Text_payload string | Conf_payload | Group_payload nat

datatype main_event =
    Main_log_warnx string
  | Main_log_debug string
  | Main_log_verbose int
  | Main_imsg_compose channel imsg_type payload
  | Main_imsg_event_add channel
  | Main_event_del channel
  | Main_event_loopexit
  | Main_merge_config

text \<open>
  \<^verbatim>\<open>imsg_compose_event\<close>: \<^verbatim>\<open>imsg_compose\<close> on the channel and, unless that returned \<open>-1\<close>,
  \<^verbatim>\<open>imsg_event_add\<close>, which registers the channel's event anew (one event of the model).
  The result is the return value, the events and the number of \<^verbatim>\<open>imsg_compose\<close> calls.
\<close>

definition imsg_compose_event ::
  "(nat \<Rightarrow> int) \<Rightarrow> nat \<Rightarrow> channel \<Rightarrow> imsg_type \<Rightarrow> payload \<Rightarrow> int \<times> main_event list \<times> nat" where
  "imsg_compose_event compose k ch type data =
     (let ret = compose k
      in (ret,
          Main_imsg_compose ch type data #
            (if ret \<noteq> -1 then [Main_imsg_event_add ch] else []),
          Suc k))"

definition main_imsg_compose_frontend ::
  "(nat \<Rightarrow> int) \<Rightarrow> nat \<Rightarrow> imsg_type \<Rightarrow> payload \<Rightarrow> main_event list \<times> nat" where
  "main_imsg_compose_frontend compose k type data =
     (let (ret, evs, k) = imsg_compose_event compose k Frontend type data in (evs, k))"

text \<open>
  \<^verbatim>\<open>n = strlcpy(cmi.text, src, sizeof(cmi.text)); if (n >= sizeof(cmi.text)) log_debug(...)\<close>
  on the zeroed \<^verbatim>\<open>cmi.text\<close>: the text that is sent and the events.
\<close>

definition strlcpy_cmi :: "platform \<Rightarrow> string \<Rightarrow> string \<times> main_event list" where
  "strlcpy_cmi P src =
     (take (sizeof_cmi_text P - 1) src,
      if length src \<ge> sizeof_cmi_text P
      then [Main_log_debug ''main_showinfo_ctl: I was cut off!''] else [])"

text \<open>\<^verbatim>\<open>main_showinfo_ctl\<close>, on the type of the message it is called with.\<close>

definition main_showinfo_ctl ::
  "platform \<Rightarrow> (nat \<Rightarrow> int) \<Rightarrow> nat \<Rightarrow> imsg_type \<Rightarrow> main_event list \<times> nat" where
  "main_showinfo_ctl P compose k type =
     (if type = IMSG_CTL_SHOW_MAIN_INFO then
        (let (text1, cut1) = strlcpy_cmi P ''I'm a little teapot.'';
             (evs1, k) = main_imsg_compose_frontend compose k IMSG_CTL_SHOW_MAIN_INFO
                           (Text_payload text1);
             (text2, cut2) = strlcpy_cmi P ''Full of sencha.'';
             (evs2, k) = main_imsg_compose_frontend compose k IMSG_CTL_SHOW_MAIN_INFO
                           (Text_payload text2);
             (evs3, k) = main_imsg_compose_frontend compose k IMSG_CTL_END No_payload
         in (cut1 @ evs1 @ cut2 @ evs2 @ evs3, k))
      else ([Main_log_debug ''main_showinfo_ctl: error handling imsg''], k))"

text \<open>\<^verbatim>\<open>main_sendboth\<close>: to the frontend, then to the engine, stopping at the first \<open>-1\<close>.\<close>

definition main_sendboth ::
  "(nat \<Rightarrow> int) \<Rightarrow> nat \<Rightarrow> imsg_type \<Rightarrow> payload \<Rightarrow> int \<times> main_event list \<times> nat" where
  "main_sendboth compose k type data =
     (let (ret, evs1, k) = imsg_compose_event compose k Frontend type data
      in if ret = -1 then (-1, evs1, k)
         else (let (ret, evs2, k) = imsg_compose_event compose k Engine type data
               in if ret = -1 then (-1, evs1 @ evs2, k) else (0, evs1 @ evs2, k)))"

text \<open>The \<^verbatim>\<open>LIST_FOREACH\<close> of \<^verbatim>\<open>main_imsg_send_config\<close> over the groups, and the function.\<close>

fun send_groups ::
  "(nat \<Rightarrow> int) \<Rightarrow> nat \<Rightarrow> nat list \<Rightarrow> int \<times> main_event list \<times> nat" where
  "send_groups compose k [] = (0, [], k)"
| "send_groups compose k (g # gs) =
     (let (ret, evs, k) = main_sendboth compose k IMSG_RECONF_GROUP (Group_payload g)
      in if ret = -1 then (-1, evs, k)
         else (let (ret, evs', k) = send_groups compose k gs in (ret, evs @ evs', k)))"

definition main_imsg_send_config ::
  "(nat \<Rightarrow> int) \<Rightarrow> nat \<Rightarrow> nat list \<Rightarrow> int \<times> main_event list \<times> nat" where
  "main_imsg_send_config compose k gs =
     (let (ret, evs1, k) = main_sendboth compose k IMSG_RECONF_CONF Conf_payload
      in if ret = -1 then (-1, evs1, k)
         else (let (ret, evs2, k) = send_groups compose k gs
               in if ret = -1 then (-1, evs1 @ evs2, k)
                  else (let (ret, evs3, k) = main_sendboth compose k IMSG_RECONF_END No_payload
                        in if ret = -1 then (-1, evs1 @ evs2 @ evs3, k)
                           else (0, evs1 @ evs2 @ evs3, k))))"

text \<open>
  \<^verbatim>\<open>main_reload\<close>; \<open>parsed\<close> is what \<^verbatim>\<open>parse_config\<close> returns. The call of \<^verbatim>\<open>merge_config\<close> is
  one event here; the function itself is modelled below.
\<close>

definition main_reload ::
  "(nat \<Rightarrow> int) \<Rightarrow> nat \<Rightarrow> nat list option \<Rightarrow> int \<times> main_event list \<times> nat" where
  "main_reload compose k parsed =
     (case parsed of
        None \<Rightarrow> (-1, [], k)
      | Some gs \<Rightarrow>
          (let (ret, evs, k) = main_imsg_send_config compose k gs
           in if ret = -1 then (-1, evs, k) else (0, evs @ [Main_merge_config], k)))"

text \<open>
  \<^verbatim>\<open>if ((n = call(...)) == -1 && errno != EAGAIN) fatal(msg); if (n == 0) shut = 1;\<close>
  The result is the message of \<^verbatim>\<open>fatal\<close>, or the value of \<open>shut\<close> afterwards.
\<close>

definition io_step :: "io_result \<Rightarrow> string \<Rightarrow> bool \<Rightarrow> string + bool" where
  "io_step r msg shut =
     (case r of
        Io_error e \<Rightarrow> if e \<noteq> EAGAIN then Inl msg else Inr shut
      | Io_count n \<Rightarrow> Inr (if n = 0 then True else shut))"

text \<open>
  The \<^verbatim>\<open>switch\<close> of each handler on the type of a message: the events of handling the
  message and the number of \<^verbatim>\<open>imsg_compose\<close> calls.
\<close>

definition frontend_imsg ::
  "platform \<Rightarrow> (nat \<Rightarrow> int) \<Rightarrow> nat \<Rightarrow> imsg_type \<Rightarrow> int \<Rightarrow> nat list option \<Rightarrow>
   main_event list \<times> nat" where
  "frontend_imsg P compose k type v parsed =
     (if type = IMSG_CTL_RELOAD then
        (let (ret, evs, k) = main_reload compose k parsed
         in (evs @ [if ret = -1 then Main_log_warnx ''configuration reload failed''
                    else Main_log_warnx ''configuration reloaded''], k))
      else if type = IMSG_CTL_LOG_VERBOSE then ([Main_log_verbose v], k)
      else if type = IMSG_CTL_SHOW_MAIN_INFO then main_showinfo_ctl P compose k type
      else ([Main_log_debug ''main_dispatch_frontend: error handling imsg %d''], k))"

definition engine_imsg ::
  "platform \<Rightarrow> (nat \<Rightarrow> int) \<Rightarrow> nat \<Rightarrow> imsg_type \<Rightarrow> int \<Rightarrow> nat list option \<Rightarrow>
   main_event list \<times> nat" where
  "engine_imsg P compose k type v parsed =
     ([Main_log_debug ''main_dispatch_engine: error handling imsg %d''], k)"

text \<open>
  \<^verbatim>\<open>for (;;) { if ((n = imsg_get(ibuf, &imsg)) == -1) fatal("imsg_get"); if (n == 0) break; ... }\<close>
\<close>

fun imsg_loop ::
  "(nat \<Rightarrow> imsg_type \<Rightarrow> int \<Rightarrow> nat list option \<Rightarrow> main_event list \<times> nat) \<Rightarrow>
   imsg_get_result list \<Rightarrow> main_event list \<Rightarrow> nat \<Rightarrow> outcome \<times> main_event list" where
  "imsg_loop handle [] evs k = (Returned, evs)"
| "imsg_loop handle (Get_error # gets) evs k = (Fatal ''imsg_get'', evs)"
| "imsg_loop handle (Get_imsg type v parsed # gets) evs k =
     (let (es, k) = handle k type v parsed in imsg_loop handle gets (evs @ es) k)"

text \<open>
  The body the two handlers share, for the channel \<open>ch\<close> the handler serves. \<open>ev_read\<close>
  and \<open>ev_write\<close> are \<^verbatim>\<open>event & EV_READ\<close> and \<^verbatim>\<open>event & EV_WRITE\<close>; \<open>rd\<close> and \<open>wr\<close> are what
  \<^verbatim>\<open>imsg_read\<close> and \<^verbatim>\<open>msgbuf_write\<close> return if they are called. The handler ends with
  \<^verbatim>\<open>imsg_event_add(iev)\<close> when \<open>shut\<close> is not set, and with \<^verbatim>\<open>event_del(&iev->ev)\<close> and
  \<^verbatim>\<open>event_loopexit(NULL)\<close> when it is.
\<close>

definition main_dispatch ::
  "channel \<Rightarrow> (nat \<Rightarrow> imsg_type \<Rightarrow> int \<Rightarrow> nat list option \<Rightarrow> main_event list \<times> nat) \<Rightarrow>
   bool \<Rightarrow> bool \<Rightarrow> io_result \<Rightarrow> io_result \<Rightarrow> imsg_get_result list \<Rightarrow>
   outcome \<times> main_event list" where
  "main_dispatch ch handle ev_read ev_write rd wr gets =
     (case (if ev_read then io_step rd ''imsg_read error'' False else Inr False) of
        Inl msg \<Rightarrow> (Fatal msg, [])
      | Inr shut \<Rightarrow>
         (case (if ev_write then io_step wr ''msgbuf_write'' shut else Inr shut) of
            Inl msg \<Rightarrow> (Fatal msg, [])
          | Inr shut \<Rightarrow>
             (case imsg_loop handle gets [] 0 of
                (Returned, evs) \<Rightarrow>
                  if \<not> shut then (Returned, evs @ [Main_imsg_event_add ch])
                  else (Returned, evs @ [Main_event_del ch, Main_event_loopexit])
              | (out, evs) \<Rightarrow> (out, evs))))"

definition main_dispatch_frontend ::
  "platform \<Rightarrow> (nat \<Rightarrow> int) \<Rightarrow> bool \<Rightarrow> bool \<Rightarrow> io_result \<Rightarrow> io_result \<Rightarrow>
   imsg_get_result list \<Rightarrow> outcome \<times> main_event list" where
  "main_dispatch_frontend P compose = main_dispatch Frontend (frontend_imsg P compose)"

definition main_dispatch_engine ::
  "platform \<Rightarrow> (nat \<Rightarrow> int) \<Rightarrow> bool \<Rightarrow> bool \<Rightarrow> io_result \<Rightarrow> io_result \<Rightarrow>
   imsg_get_result list \<Rightarrow> outcome \<times> main_event list" where
  "main_dispatch_engine P compose = main_dispatch Engine (engine_imsg P compose)"


section \<open>Configuration: \<^verbatim>\<open>merge_config\<close>\<close>

text \<open>
  \<^verbatim>\<open>struct group\<close> and \<^verbatim>\<open>struct newd_conf\<close> of \<^verbatim>\<open>newd.h\<close>, member by member (a C \<^verbatim>\<open>int\<close> is
  a 32-bit word, an address or a character array the list of its bytes). Configurations
  and groups are allocated objects: the model keeps them in two stores from addresses to
  objects, and the list head \<^verbatim>\<open>group_list\<close> of a configuration is the list of the
  addresses of its groups, first entry first. \<^verbatim>\<open>free\<close> removes an address from its store.
\<close>

record group =
  group_name :: "byte list"
  group_yesno :: "32 word"
  group_group_yesno :: "32 word"
  group_integer :: "32 word"
  group_group_integer :: "32 word"
  group_v4_bits :: "32 word"
  group_group_v4_bits :: "32 word"
  group_v6_bits :: "32 word"
  group_group_v6_bits :: "32 word"
  group_v4address :: "byte list"
  group_group_v4address :: "byte list"
  group_v6address :: "byte list"
  group_group_v6address :: "byte list"
  group_text :: "byte list"
  group_group_text :: "byte list"

record newd_conf =
  conf_csock :: "nat option"
  conf_opts :: "32 word"
  conf_yesno :: "32 word"
  conf_global_yesno :: "32 word"
  conf_integer :: "32 word"
  conf_global_integer :: "32 word"
  conf_v4_bits :: "32 word"
  conf_global_v4_bits :: "32 word"
  conf_v6_bits :: "32 word"
  conf_global_v6_bits :: "32 word"
  conf_v4address :: "byte list"
  conf_global_v4address :: "byte list"
  conf_v6address :: "byte list"
  conf_global_v6address :: "byte list"
  conf_text :: "byte list"
  conf_global_text :: "byte list"
  conf_group_list :: "nat list"

record heap =
  confs :: "nat \<Rightarrow> newd_conf option"
  groups :: "nat \<Rightarrow> group option"

text \<open>
  \<^verbatim>\<open>while ((g = LIST_FIRST(&conf->group_list)) != NULL) { LIST_REMOVE(g, entry); free(g); }\<close>
  by recursion on the list; the list is empty afterwards.
\<close>

fun discard_groups :: "nat list \<Rightarrow> (nat \<Rightarrow> group option) \<Rightarrow> (nat \<Rightarrow> group option)" where
  "discard_groups [] gs = gs"
| "discard_groups (g # rest) gs = discard_groups rest (gs(g := None))"

text \<open>
  \<^verbatim>\<open>while ((g = LIST_FIRST(&xconf->group_list)) != NULL) {
  LIST_REMOVE(g, entry); LIST_INSERT_HEAD(&conf->group_list, g, entry); }\<close>
  from the list of \<open>xconf\<close> and the list of \<open>conf\<close>, to the list of \<open>conf\<close> afterwards.
\<close>

fun adopt_groups :: "nat list \<Rightarrow> nat list \<Rightarrow> nat list" where
  "adopt_groups [] conf_list = conf_list"
| "adopt_groups (g # rest) conf_list = adopt_groups rest (g # conf_list)"

text \<open>
  \<^verbatim>\<open>merge_config(conf, xconf)\<close> on two distinct allocated configurations. The result is
  \<open>None\<close> otherwise: the C function then dereferences a pointer that is none, or frees
  the configuration it has merged into.
\<close>

definition merge_config :: "heap \<Rightarrow> nat \<Rightarrow> nat \<Rightarrow> heap option" where
  "merge_config h conf xconf =
     (case (confs h conf, confs h xconf) of
        (Some c, Some x) \<Rightarrow>
          if conf = xconf then None
          else
            (let c = c\<lparr>conf_opts := conf_opts x\<rparr>;
                 c = c\<lparr>conf_yesno := conf_yesno x\<rparr>;
                 c = c\<lparr>conf_integer := conf_integer x\<rparr>;
                 c = c\<lparr>conf_global_text := conf_global_text x\<rparr>;
                 gs = discard_groups (conf_group_list c) (groups h);
                 c = c\<lparr>conf_group_list := []\<rparr>;
                 c = c\<lparr>conf_group_list := adopt_groups (conf_group_list x) (conf_group_list c)\<rparr>
             in Some \<lparr> confs = (confs h)(conf := Some c, xconf := None), groups = gs \<rparr>)
      | _ \<Rightarrow> None)"

section \<open>Sample inputs\<close>

text \<open>
  A proposal message as the kernel of the sample platform sends it, used to run the
  decoder: the header (96 bytes; sequence number 9, interface 1, priority 7, the MTU
  field 1500 with its bit in \<^verbatim>\<open>rtm_inits\<close> clear) followed by the records of the slots
  whose bits \<open>addrs\<close> has, here a gateway 1.2.3.4 and an interface address 5.6.7.8.
\<close>

definition sample_sockaddr_in :: "byte list \<Rightarrow> byte list" where
  "sample_sockaddr_in a = [16, 2, 0, 0] @ a @ replicate 8 0"

definition sample_header :: "byte \<Rightarrow> byte \<Rightarrow> byte list" where
  "sample_header msglen addrs =
     [msglen, 0, 5, 19, 96, 0, 1, 0, 0, 0, 7, 0, addrs, 0, 0, 0] @ replicate 12 0 @
     [9, 0, 0, 0] @ replicate 4 0 @ [0, 0, 0, 0] @ replicate 20 0 @ [220, 5, 0, 0] @
     replicate 32 0"

definition sample_msg :: "byte list" where
  "sample_msg =
     sample_header 128 34 @ sample_sockaddr_in [1, 2, 3, 4] @ sample_sockaddr_in [5, 6, 7, 8]"

definition sample_proposal :: imsg_v4proposal where
  "sample_proposal =
     (zeroed_proposal lp64)
       \<lparr> proposal_addrs := 34, proposal_xid := 9, proposal_index := 1, proposal_source := 7,
         proposal_gateway := [1, 2, 3, 4], proposal_ifa := [5, 6, 7, 8] \<rparr>"

text \<open>
  The same header followed by one record, a gateway 2001:db8::1 in a \<^verbatim>\<open>sockaddr_in6\<close> of
  28 bytes, padded to 32.
\<close>

definition sample_sockaddr_in6 :: "byte list \<Rightarrow> byte list" where
  "sample_sockaddr_in6 a = [28, 24, 0, 0, 0, 0, 0, 0] @ a @ replicate 8 0"

definition sample_msg6 :: "byte list" where
  "sample_msg6 =
     sample_header 128 2 @
     sample_sockaddr_in6 [32, 1, 13, 184, 0, 0, 0, 0, 0, 0, 0, 0, 0, 0, 0, 1]"

definition sample_proposal6 :: imsg_v4proposal where
  "sample_proposal6 =
     (zeroed_proposal lp64)
       \<lparr> proposal_addrs := 2, proposal_xid := 9, proposal_index := 1, proposal_source := 7,
         proposal_gateway := [32, 1, 13, 184] \<rparr>"

text \<open>
  Nineteen bytes received whose first message declares 16 bytes, less than a header: the
  iteration reads header fields after the bytes received, and the two bytes at offset 16
  are a length of zero.
\<close>

definition stale_msg :: "byte list" where
  "stale_msg = [16, 0, 5, 19, 200, 0, 0, 0, 0, 0, 0, 0, 1, 0, 0, 0, 0, 0, 0]"

text \<open>
  Route requests with 16-byte \<^verbatim>\<open>sockaddr_in\<close> members: a removal of 10.0.0.0/8 via
  10.0.0.1 on interface 1, and an addition of the same route that selects destination,
  gateway and netmask.
\<close>

definition sample_delete_v4route :: imsg_delete_v4route where
  "sample_delete_v4route =
     \<lparr> dv4_index = 1, dv4_rdomain = 0,
       dv4_dest = sample_sockaddr_in [10, 0, 0, 0],
       dv4_gateway = sample_sockaddr_in [10, 0, 0, 1],
       dv4_netmask = sample_sockaddr_in [255, 0, 0, 0] \<rparr>"

definition sample_add_v4route :: imsg_add_v4route where
  "sample_add_v4route =
     \<lparr> av4_rdomain = 0, av4_addrs = 7, av4_flags = 3,
       av4_dest = sample_sockaddr_in [10, 0, 0, 0],
       av4_gateway = sample_sockaddr_in [10, 0, 0, 1],
       av4_netmask = sample_sockaddr_in [255, 0, 0, 0],
       av4_ifa = sample_sockaddr_in [10, 0, 0, 2] \<rparr>"

text \<open>
  Two configurations in the store: the retained one at address 0 with one group (at
  address 10), the new one at address 1 with two groups (at addresses 11 and 12). They
  differ in every setting.
\<close>

definition sample_group :: "byte list \<Rightarrow> group" where
  "sample_group name =
     \<lparr> group_name = name, group_yesno = 0, group_group_yesno = 0, group_integer = 0,
       group_group_integer = 0, group_v4_bits = 0, group_group_v4_bits = 0,
       group_v6_bits = 0, group_group_v6_bits = 0, group_v4address = [],
       group_group_v4address = [], group_v6address = [], group_group_v6address = [],
       group_text = [], group_group_text = [] \<rparr>"

definition sample_conf :: "32 word \<Rightarrow> byte list \<Rightarrow> nat list \<Rightarrow> newd_conf" where
  "sample_conf v bytes gs =
     \<lparr> conf_csock = None, conf_opts = v, conf_yesno = v, conf_global_yesno = v,
       conf_integer = v, conf_global_integer = v, conf_v4_bits = v,
       conf_global_v4_bits = v, conf_v6_bits = v, conf_global_v6_bits = v,
       conf_v4address = bytes, conf_global_v4address = bytes, conf_v6address = bytes,
       conf_global_v6address = bytes, conf_text = bytes, conf_global_text = bytes,
       conf_group_list = gs \<rparr>"

definition sample_heap :: heap where
  "sample_heap =
     \<lparr> confs = (\<lambda>a. None)(0 := Some (sample_conf 24 [111] [10]),
                            1 := Some (sample_conf 16 [110] [11, 12])),
       groups = (\<lambda>a. None)(10 := Some (sample_group [97]), 11 := Some (sample_group [98]),
                             12 := Some (sample_group [99])) \<rparr>"

section \<open>Properties of the address walk\<close>

text \<open>Bit \<open>i\<close> of the presence bitmap, as \<^verbatim>\<open>get_rtaddrs\<close> tests it: \<^verbatim>\<open>addrs & (1 << i)\<close>.\<close>

abbreviation present :: "32 word \<Rightarrow> nat \<Rightarrow> bool" where
  "present addrs i \<equiv> addrs AND push_bit i 1 \<noteq> 0"

subsection \<open>The sample platform\<close>

lemma lp64_simps:
  "big_endian lp64 = False" "sizeof_long lp64 = 8" "sizeof_sockaddr_in lp64 = 16"
  "sizeof_ifra_name lp64 = 16" "RTM_VERSION lp64 = 5" "RTM_ADD lp64 = 1" "RTM_DELETE lp64 = 2"
  "RTM_PROPOSAL lp64 = 19" "RTP_NONE lp64 = 0" "AF_INET lp64 = 2" "AF_INET6 lp64 = 24"
  "RTV_MTU lp64 = 1" "RTA_DST lp64 = 1" "RTA_GATEWAY lp64 = 2" "RTA_NETMASK lp64 = 4"
  "RTA_IFA lp64 = 32" "RTAX_MAX lp64 = 21" "RTAX_GATEWAY lp64 = 1" "RTAX_NETMASK lp64 = 2"
  "RTAX_IFA lp64 = 5" "RTAX_STATIC lp64 = 15" "RTAX_SEARCH lp64 = 16" "RTAX_DNS1 lp64 = 17"
  "RTAX_DNS2 lp64 = 18" "RTAX_DNS3 lp64 = 19" "RTAX_DNS4 lp64 = 20"
  "sizeof_rtstatic lp64 = 128" "sizeof_rtsearch lp64 = 128" "sizeof_addr lp64 = 4"
  "sizeof_cmi_text lp64 = 256"
  by (simp_all add: lp64_def)

subsection \<open>\<^verbatim>\<open>ROUNDUP\<close> on a word size that is a power of two\<close>

lemma pow2_minus1_mask: "(2::nat) ^ k - Suc 0 = mask k"
  by (simp add: mask_eq_exp_minus_1)

lemma and_pow2_minus1: "(a::nat) AND (2 ^ k - Suc 0) = a mod 2 ^ k"
  unfolding pow2_minus1_mask by (simp flip: take_bit_eq_mask add: take_bit_eq_mod)

lemma or_pow2_minus1: "(a::nat) OR (2 ^ k - Suc 0) = (a div 2 ^ k) * 2 ^ k + (2 ^ k - Suc 0)"
proof -
  have "(a div 2 ^ k) * 2 ^ k + mask k = push_bit k (drop_bit k a) + mask k"
    by (simp add: push_bit_eq_mult drop_bit_eq_div)
  also have "\<dots> = push_bit k (drop_bit k a) OR mask k"
    by (rule disjunctive_add) (auto simp: bit_simps)
  also have "\<dots> = a OR mask k"
    by (rule bit_eqI) (auto simp: bit_simps)
  finally show ?thesis unfolding pow2_minus1_mask by simp
qed

lemma ROUNDUP_pow2:
  assumes "sizeof_long P = 2 ^ k"
  shows "ROUNDUP P a = (if a mod 2 ^ k = 0 then a else (a div 2 ^ k + 1) * 2 ^ k)"
  using assms by (simp add: ROUNDUP_def and_pow2_minus1 or_pow2_minus1)

lemma ROUNDUP_least:
  assumes "sizeof_long P = 2 ^ k"
  shows "sizeof_long P dvd ROUNDUP P a \<and> a \<le> ROUNDUP P a \<and> ROUNDUP P a < a + sizeof_long P"
proof -
  define w :: nat where "w = 2 ^ k"
  define m where "m = a div w * w"
  have w: "0 < w" by (simp add: w_def)
  have split: "m + a mod w = a" unfolding m_def by (rule div_mult_mod_eq)
  have lt: "a mod w < w" using w by simp
  have up: "(a div w + 1) * w = m + w" by (simp add: m_def algebra_simps)
  have R: "ROUNDUP P a = (if a mod w = 0 then a else m + w)"
    using assms up by (simp add: ROUNDUP_pow2 w_def)
  show ?thesis
  proof (cases "a mod w = 0")
    case True
    then show ?thesis using assms w by (simp add: R mod_eq_0_iff_dvd w_def)
  next
    case False
    have "w dvd m + w" by (simp add: m_def)
    moreover have "a \<le> m + w" using split lt by linarith
    moreover have "m + w < a + w" using split False by linarith
    ultimately show ?thesis using assms False by (simp add: R w_def)
  qed
qed

subsection \<open>The loop of \<^verbatim>\<open>get_rtaddrs\<close>\<close>

declare get_rtaddrs_from.simps [simp del]

lemma get_rtaddrs_from_stop:
  "\<not> i < RTAX_MAX P \<Longrightarrow> get_rtaddrs_from P buf addrs i sa v6 rti_info = Some (v6, rti_info)"
  by (subst get_rtaddrs_from.simps) simp

lemma get_rtaddrs_from_skip:
  "i < RTAX_MAX P \<Longrightarrow> \<not> present addrs i \<Longrightarrow>
   get_rtaddrs_from P buf addrs i sa v6 rti_info =
   get_rtaddrs_from P buf addrs (Suc i) sa v6 (rti_info(i := None))"
  by (subst get_rtaddrs_from.simps) simp

lemma get_rtaddrs_from_take:
  "i < RTAX_MAX P \<Longrightarrow> present addrs i \<Longrightarrow>
   get_rtaddrs_from P buf addrs i sa v6 rti_info = Some r \<Longrightarrow>
   \<exists>fam len. get_u8 buf (sa + off_sa_family) = Some fam \<and>
     get_u8 buf (sa + off_sa_len) = Some len \<and>
     get_rtaddrs_from P buf addrs (Suc i) (sa + ROUNDUP P (unat len))
       (if fam = AF_INET P then 0 else v6) (rti_info(i := Some sa)) = Some r"
  by (subst (asm) get_rtaddrs_from.simps) (auto split: option.splits)

lemma get_rtaddrs_from_frame:
  "get_rtaddrs_from P buf addrs i sa v6 rti_info = Some (v6', rti') \<Longrightarrow> j < i \<Longrightarrow> rti' j = rti_info j"
proof (induction "RTAX_MAX P - i" arbitrary: i sa v6 rti_info)
  case 0
  then show ?case by (simp add: get_rtaddrs_from_stop)
next
  case (Suc n)
  then have iM: "i < RTAX_MAX P" and n: "n = RTAX_MAX P - Suc i" by simp_all
  show ?case
  proof (cases "present addrs i")
    case True
    from get_rtaddrs_from_take [OF iM True Suc.prems(1)] obtain fam and len :: byte where
      "get_rtaddrs_from P buf addrs (Suc i) (sa + ROUNDUP P (unat len))
         (if fam = AF_INET P then 0 else v6) (rti_info(i := Some sa)) = Some (v6', rti')"
      by blast
    from Suc.hyps(1) [OF n this] Suc.prems(2) show ?thesis by simp
  next
    case False
    from Suc.prems(1) have
      "get_rtaddrs_from P buf addrs (Suc i) sa v6 (rti_info(i := None)) = Some (v6', rti')"
      by (simp add: get_rtaddrs_from_skip [OF iM False])
    from Suc.hyps(1) [OF n this] Suc.prems(2) show ?thesis by simp
  qed
qed

lemma get_rtaddrs_from_absent:
  "get_rtaddrs_from P buf addrs i sa v6 rti_info = Some (v6', rti') \<Longrightarrow>
   i \<le> j \<Longrightarrow> j < RTAX_MAX P \<Longrightarrow> \<not> present addrs j \<Longrightarrow> rti' j = None"
proof (induction "RTAX_MAX P - i" arbitrary: i sa v6 rti_info)
  case 0
  then show ?case by simp
next
  case (Suc n)
  then have iM: "i < RTAX_MAX P" and n: "n = RTAX_MAX P - Suc i" by simp_all
  show ?case
  proof (cases "present addrs i")
    case True
    then have ij: "Suc i \<le> j" using Suc.prems(2,4) by (cases "i = j") auto
    from get_rtaddrs_from_take [OF iM True Suc.prems(1)] obtain fam and len :: byte where
      "get_rtaddrs_from P buf addrs (Suc i) (sa + ROUNDUP P (unat len))
         (if fam = AF_INET P then 0 else v6) (rti_info(i := Some sa)) = Some (v6', rti')"
      by blast
    from Suc.hyps(1) [OF n this ij Suc.prems(3,4)] show ?thesis .
  next
    case False
    from Suc.prems(1) have rec:
      "get_rtaddrs_from P buf addrs (Suc i) sa v6 (rti_info(i := None)) = Some (v6', rti')"
      by (simp add: get_rtaddrs_from_skip [OF iM False])
    show ?thesis
    proof (cases "i = j")
      case True
      then show ?thesis using get_rtaddrs_from_frame [OF rec, of j] by simp
    next
      case False
      then have "Suc i \<le> j" using Suc.prems(2) by simp
      from Suc.hyps(1) [OF n rec this Suc.prems(3,4)] show ?thesis .
    qed
  qed
qed

lemma get_rtaddrs_from_first:
  "get_rtaddrs_from P buf addrs i sa v6 rti_info = Some (v6', rti') \<Longrightarrow>
   i \<le> j \<Longrightarrow> j < RTAX_MAX P \<Longrightarrow> present addrs j \<Longrightarrow>
   (\<And>m. i \<le> m \<Longrightarrow> m < j \<Longrightarrow> \<not> present addrs m) \<Longrightarrow> rti' j = Some sa"
proof (induction "RTAX_MAX P - i" arbitrary: i sa v6 rti_info)
  case 0
  then show ?case by simp
next
  case (Suc n)
  then have iM: "i < RTAX_MAX P" and n: "n = RTAX_MAX P - Suc i" by simp_all
  show ?case
  proof (cases "i = j")
    case True
    then have pi: "present addrs i" using Suc.prems(4) by simp
    from get_rtaddrs_from_take [OF iM pi Suc.prems(1)] obtain fam and len :: byte where
      "get_rtaddrs_from P buf addrs (Suc i) (sa + ROUNDUP P (unat len))
         (if fam = AF_INET P then 0 else v6) (rti_info(i := Some sa)) = Some (v6', rti')"
      by blast
    from get_rtaddrs_from_frame [OF this, of j] True show ?thesis by simp
  next
    case False
    then have ij: "Suc i \<le> j" "i < j" using Suc.prems(2) by simp_all
    then have np: "\<not> present addrs i" using Suc.prems(5) [of i] by simp
    from Suc.prems(1) have rec:
      "get_rtaddrs_from P buf addrs (Suc i) sa v6 (rti_info(i := None)) = Some (v6', rti')"
      by (simp add: get_rtaddrs_from_skip [OF iM np])
    show ?thesis
      by (rule Suc.hyps(1) [OF n rec ij(1) Suc.prems(3,4)]) (use Suc.prems(5) in simp)
  qed
qed

lemma get_rtaddrs_from_v6:
  "get_rtaddrs_from P buf addrs i sa v6 rti_info = Some (v6', rti') \<Longrightarrow>
   v6' = (if v6 = 0 \<or> (\<exists>j p. i \<le> j \<and> j < RTAX_MAX P \<and> present addrs j \<and> rti' j = Some p \<and>
            get_u8 buf (p + off_sa_family) = Some (AF_INET P)) then 0 else v6)"
proof (induction "RTAX_MAX P - i" arbitrary: i sa v6 rti_info)
  case 0
  then show ?case by (auto simp add: get_rtaddrs_from_stop)
next
  case (Suc n)
  then have iM: "i < RTAX_MAX P" and n: "n = RTAX_MAX P - Suc i" by simp_all
  define hit where "hit j \<longleftrightarrow> j < RTAX_MAX P \<and> present addrs j \<and>
    (\<exists>p. rti' j = Some p \<and> get_u8 buf (p + off_sa_family) = Some (AF_INET P))" for j
  have split: "(\<exists>j. i \<le> j \<and> hit j) \<longleftrightarrow> hit i \<or> (\<exists>j. Suc i \<le> j \<and> hit j)"
    by (metis Suc_leI le_eq_less_or_eq Suc_leD order_refl)
  have goal: "?case \<longleftrightarrow> v6' = (if v6 = 0 \<or> (\<exists>j. i \<le> j \<and> hit j) then 0 else v6)"
    unfolding hit_def by metis
  show ?case
  proof (cases "present addrs i")
    case True
    from get_rtaddrs_from_take [OF iM True Suc.prems(1)] obtain fam and len :: byte where
      fam: "get_u8 buf (sa + off_sa_family) = Some fam" and
      rec: "get_rtaddrs_from P buf addrs (Suc i) (sa + ROUNDUP P (unat len))
         (if fam = AF_INET P then 0 else v6) (rti_info(i := Some sa)) = Some (v6', rti')"
      by blast
    have i: "rti' i = Some sa" using get_rtaddrs_from_frame [OF rec, of i] by simp
    have "v6' = (if (if fam = AF_INET P then 0 else v6) = 0 \<or> (\<exists>j. Suc i \<le> j \<and> hit j)
      then 0 else (if fam = AF_INET P then 0 else v6))"
      using Suc.hyps(1) [OF n rec] unfolding hit_def by metis
    moreover have "hit i \<longleftrightarrow> fam = AF_INET P"
      using iM True i fam by (simp add: hit_def)
    ultimately show ?thesis unfolding goal split by auto
  next
    case False
    from Suc.prems(1) have rec:
      "get_rtaddrs_from P buf addrs (Suc i) sa v6 (rti_info(i := None)) = Some (v6', rti')"
      by (simp add: get_rtaddrs_from_skip [OF iM False])
    have "v6' = (if v6 = 0 \<or> (\<exists>j. Suc i \<le> j \<and> hit j) then 0 else v6)"
      using Suc.hyps(1) [OF n rec] unfolding hit_def by metis
    moreover have "\<not> hit i"
      using False by (simp add: hit_def)
    ultimately show ?thesis unfolding goal split by auto
  qed
qed


lemma get_rtaddrs_from_present:
  "get_rtaddrs_from P buf addrs i sa v6 rti_info = Some (v6', rti') \<Longrightarrow>
   i \<le> j \<Longrightarrow> j < RTAX_MAX P \<Longrightarrow> present addrs j \<Longrightarrow>
   \<exists>p len. rti' j = Some p \<and> get_u8 buf (p + off_sa_len) = Some len \<and>
     (\<forall>k. j < k \<and> k < RTAX_MAX P \<and> present addrs k \<and>
          (\<forall>m. j < m \<and> m < k \<longrightarrow> \<not> present addrs m) \<longrightarrow>
          rti' k = Some (p + ROUNDUP P (unat len)))"
proof (induction "RTAX_MAX P - i" arbitrary: i sa v6 rti_info)
  case 0
  then show ?case by simp
next
  case (Suc n)
  then have iM: "i < RTAX_MAX P" and n: "n = RTAX_MAX P - Suc i" by simp_all
  show ?case
  proof (cases "i = j")
    case True
    then have pi: "present addrs i" using Suc.prems(4) by simp
    from get_rtaddrs_from_take [OF iM pi Suc.prems(1)] obtain fam and len :: byte where
      len: "get_u8 buf (sa + off_sa_len) = Some len" and
      rec: "get_rtaddrs_from P buf addrs (Suc i) (sa + ROUNDUP P (unat len))
         (if fam = AF_INET P then 0 else v6) (rti_info(i := Some sa)) = Some (v6', rti')"
      by blast
    have j: "rti' j = Some sa" using get_rtaddrs_from_frame [OF rec, of j] True by simp
    have "rti' k = Some (sa + ROUNDUP P (unat len))"
      if "j < k" "k < RTAX_MAX P" "present addrs k" "\<forall>m. j < m \<and> m < k \<longrightarrow> \<not> present addrs m" for k
      by (rule get_rtaddrs_from_first [OF rec _ that(2,3)]) (use True that(1,4) in simp_all)
    with j len show ?thesis by blast
  next
    case False
    then have ij: "Suc i \<le> j" using Suc.prems(2) by simp
    show ?thesis
    proof (cases "present addrs i")
      case True
      from get_rtaddrs_from_take [OF iM True Suc.prems(1)] obtain fam and len :: byte where
        rec: "get_rtaddrs_from P buf addrs (Suc i) (sa + ROUNDUP P (unat len))
           (if fam = AF_INET P then 0 else v6) (rti_info(i := Some sa)) = Some (v6', rti')"
        by blast
      show ?thesis
        by (rule Suc.hyps(1) [OF n rec ij Suc.prems(3,4)])
    next
      case np: False
      from Suc.prems(1) have rec:
        "get_rtaddrs_from P buf addrs (Suc i) sa v6 (rti_info(i := None)) = Some (v6', rti')"
        by (simp add: get_rtaddrs_from_skip [OF iM np])
      show ?thesis
        by (rule Suc.hyps(1) [OF n rec ij Suc.prems(3,4)])
    qed
  qed
qed

text \<open>
  C4. Take any run of \<^verbatim>\<open>get_rtaddrs\<close> on a platform whose \<^verbatim>\<open>sizeof(long)\<close> is a power of
  two, and any slot \<open>i\<close> whose bit is set. The slot's record lies at the cursor value \<open>p\<close>
  that \<open>rti_info\<close> holds for it, its declared length \<^verbatim>\<open>sa_len\<close> is the byte at \<open>p\<close>, and the
  cursor moves on by \<open>r = ROUNDUP(sa_len)\<close>: the next slot whose bit is set lies at
  \<open>p + r\<close>. This \<open>r\<close> is the least multiple of the word size that is not below the
  declared length: it is a multiple, it is at least the length and less than the length
  plus one word, and it is the length itself when that is a multiple already. The first
  record lies where the walk starts.
\<close>

theorem read_slot_advance:
  assumes w: "sizeof_long P = 2 ^ k"
    and run: "get_rtaddrs P buf addrs sa = Some (v6, rti_info)"
    and i: "i < RTAX_MAX P" "present addrs i"
  shows "\<exists>p len r. rti_info i = Some p \<and> get_u8 buf (p + off_sa_len) = Some len \<and>
           r = ROUNDUP P (unat len) \<and>
           sizeof_long P dvd r \<and> unat len \<le> r \<and> r < unat len + sizeof_long P \<and>
           (sizeof_long P dvd unat len \<longrightarrow> r = unat len) \<and>
           (\<forall>j. i < j \<and> j < RTAX_MAX P \<and> present addrs j \<and>
                (\<forall>m. i < m \<and> m < j \<longrightarrow> \<not> present addrs m) \<longrightarrow>
                rti_info j = Some (p + r)) \<and>
           ((\<forall>m. m < i \<longrightarrow> \<not> present addrs m) \<longrightarrow> p = sa)"
proof -
  from run have run': "get_rtaddrs_from P buf addrs 0 sa 1 (\<lambda>i. None) = Some (v6, rti_info)"
    by (simp add: get_rtaddrs_def)
  from get_rtaddrs_from_present [OF run' _ i] obtain p and len :: byte where
    p: "rti_info i = Some p" and len: "get_u8 buf (p + off_sa_len) = Some len" and
    nxt: "\<forall>j. i < j \<and> j < RTAX_MAX P \<and> present addrs j \<and>
            (\<forall>m. i < m \<and> m < j \<longrightarrow> \<not> present addrs m) \<longrightarrow>
            rti_info j = Some (p + ROUNDUP P (unat len))"
    by auto
  have fst: "p = sa" if "\<forall>m. m < i \<longrightarrow> \<not> present addrs m"
    using get_rtaddrs_from_first [OF run' _ i] that p by simp
  have mult: "sizeof_long P dvd unat len \<longrightarrow> ROUNDUP P (unat len) = unat len"
    using w by (simp add: ROUNDUP_pow2 mod_eq_0_iff_dvd)
  from p len nxt fst mult ROUNDUP_least [OF w, of "unat len"] show ?thesis
    by blast
qed

theorem read_slot_advance_witness:
  "\<exists>v6 rti_info.
     get_rtaddrs lp64 [5, 24, 0, 0, 0, 0, 0, 0, 16, 2, 0, 0, 0, 0, 0, 0, 0, 0, 0, 0, 0, 0, 0, 0,
                       3, 2] 7 0 = Some (v6, rti_info) \<and>
     rti_info 0 = Some 0 \<and> rti_info 1 = Some 8 \<and> rti_info 2 = Some 24"
proof -
  let ?buf = "[5, 24, 0, 0, 0, 0, 0, 0, 16, 2, 0, 0, 0, 0, 0, 0, 0, 0, 0, 0, 0, 0, 0, 0, 3, 2] :: byte list"
  have "\<not> Option.is_none (get_rtaddrs lp64 ?buf 7 0)"
    by code_simp
  then obtain v6 rti_info where run: "get_rtaddrs lp64 ?buf 7 0 = Some (v6, rti_info)"
    by (auto simp: Option.is_none_def)
  have w: "sizeof_long lp64 = 2 ^ 3" by (simp add: lp64_simps)
  have M: "0 < RTAX_MAX lp64" "1 < RTAX_MAX lp64" by (simp_all add: lp64_simps)
  have p0: "present (7 :: 32 word) 0" and p1: "present (7 :: 32 word) 1"
    and p2: "present (7 :: 32 word) 2" by simp_all
  have r5: "ROUNDUP lp64 5 = 8" and r16: "ROUNDUP lp64 16 = 16"
    by (simp_all add: ROUNDUP_def lp64_simps)
  from read_slot_advance [OF w run M(1) p0] obtain p and len :: byte where
    a: "rti_info 0 = Some p" "get_u8 ?buf (p + off_sa_len) = Some len" "p = 0"
      "\<forall>j. 0 < j \<and> j < RTAX_MAX lp64 \<and> present (7 :: 32 word) j \<and>
           (\<forall>m. 0 < m \<and> m < j \<longrightarrow> \<not> present (7 :: 32 word) m) \<longrightarrow>
           rti_info j = Some (p + ROUNDUP lp64 (unat len))"
    by auto
  from a(2,3) have "len = 5" by (simp add: get_u8_def off_sa_len_def)
  with a(3) a(4) [THEN spec, of 1] M(2) p1 r5 have s1: "rti_info 1 = Some 8" by auto
  from read_slot_advance [OF w run M(2) p1] obtain q and len' :: byte where
    b: "rti_info 1 = Some q" "get_u8 ?buf (q + off_sa_len) = Some len'"
      "\<forall>j. 1 < j \<and> j < RTAX_MAX lp64 \<and> present (7 :: 32 word) j \<and>
           (\<forall>m. 1 < m \<and> m < j \<longrightarrow> \<not> present (7 :: 32 word) m) \<longrightarrow>
           rti_info j = Some (q + ROUNDUP lp64 (unat len'))"
    by auto
  from b(1) s1 have q: "q = 8" by simp
  from b(2) q have "len' = 16" by (simp add: get_u8_def off_sa_len_def)
  with b(3) [THEN spec, of 2] q p2 r16 have s2: "rti_info 2 = Some 24"
    by (auto simp: lp64_simps)
  from run a(1,3) s1 s2 show ?thesis by simp
qed

section \<open>Properties of the decoder\<close>

subsection \<open>What an iteration reads, logs and forwards\<close>

lemma get_u16_msglen:
  assumes "\<not> length buf < offset + 2"
  shows "get_u16 P buf (offset + off_rtm_msglen) = Some (rtm_msglen_at P buf offset)"
  using assms by (simp add: get_u16_def get_bytes_def rtm_msglen_at_def off_rtm_msglen_def)

lemma kr_msg_next:
  assumes "kr_msg P buf offset = Iter_next n body"
  shows "get_u16 P buf (offset + off_rtm_msglen) = Some (rtm_msglen_at P buf offset) \<and>
     n = unat (rtm_msglen_at P buf offset) \<and> offset + n \<le> length buf \<and>
     body = kr_msg_body P buf offset"
  using assms by (auto simp: kr_msg_def get_u16_msglen split: if_splits)

text \<open>
  The body on a message of the expected version and of type \<^verbatim>\<open>RTM_PROPOSAL\<close>, when all
  its reads stay inside the bytes received.
\<close>

lemma kr_msg_body_proposal:
  assumes "get_u8 buf (offset + off_rtm_version) = Some (RTM_VERSION P)"
    and "get_u16 P buf (offset + off_rtm_hdrlen) = Some hdrlen"
    and "get_u32 P buf (offset + off_rtm_addrs) = Some addrs"
    and "get_rtaddrs P buf addrs (offset + unat hdrlen) = Some (v6, rti_info)"
    and "get_u8 buf (offset + off_rtm_type) = Some (RTM_PROPOSAL P)"
    and "get_u8 buf (offset + off_rtm_priority) = Some priority"
    and "fill_proposal P (if v6 = 0 then off_sin_addr else off_sin6_addr) buf offset rti_info =
           Some proposal"
  shows "kr_msg_body P buf offset =
     Some [Log_warnx ''I see a %s RTM_PROPOSAL from %d!''
             [Arg_str (if v6 = 0 then ''IPv4'' else ''IPv6''), Arg_int (uint priority)],
           Compose_engine (if v6 = 0 then IMSG_SEND_V4PROPOSAL else IMSG_SEND_V6PROPOSAL)
             proposal]"
proof (cases "v6 = 0")
  case True
  with assms show ?thesis
    by (simp add: kr_msg_body_def forward_v4proposal_def)
next
  case False
  with assms show ?thesis
    by (simp add: kr_msg_body_def forward_v6proposal_def)
qed

lemma kr_msg_body_compose:
  assumes body: "kr_msg_body P buf offset = Some evs"
    and ev: "Compose_engine kind proposal \<in> set evs"
  shows "\<exists>hdrlen addrs v6 rti_info priority.
     get_u8 buf (offset + off_rtm_version) = Some (RTM_VERSION P) \<and>
     get_u16 P buf (offset + off_rtm_hdrlen) = Some hdrlen \<and>
     get_u32 P buf (offset + off_rtm_addrs) = Some addrs \<and>
     get_rtaddrs P buf addrs (offset + unat hdrlen) = Some (v6, rti_info) \<and>
     get_u8 buf (offset + off_rtm_type) = Some (RTM_PROPOSAL P) \<and>
     get_u8 buf (offset + off_rtm_priority) = Some priority \<and>
     (if v6 \<noteq> 0 then forward_v6proposal P buf offset rti_info
      else forward_v4proposal P buf offset rti_info) = Some (kind, proposal) \<and>
     evs = [Log_warnx ''I see a %s RTM_PROPOSAL from %d!''
              [Arg_str (if v6 \<noteq> 0 then ''IPv6'' else ''IPv4''), Arg_int (uint priority)],
            Compose_engine kind proposal]"
proof -
  from body obtain version where v: "get_u8 buf (offset + off_rtm_version) = Some version"
    and rest: "(if version \<noteq> RTM_VERSION P then Some [] else do {
       hdrlen \<leftarrow> get_u16 P buf (offset + off_rtm_hdrlen);
       addrs \<leftarrow> get_u32 P buf (offset + off_rtm_addrs);
       (v6, rti_info) \<leftarrow> get_rtaddrs P buf addrs (offset + unat hdrlen);
       type \<leftarrow> get_u8 buf (offset + off_rtm_type);
       if type = RTM_PROPOSAL P then do {
         priority \<leftarrow> get_u8 buf (offset + off_rtm_priority);
         (kind, proposal) \<leftarrow>
           (if v6 \<noteq> 0 then forward_v6proposal P buf offset rti_info
            else forward_v4proposal P buf offset rti_info);
         Some [Log_warnx ''I see a %s RTM_PROPOSAL from %d!''
                 [Arg_str (if v6 \<noteq> 0 then ''IPv6'' else ''IPv4''), Arg_int (uint priority)],
               Compose_engine kind proposal]
       }
       else Some []
     }) = Some evs"
    by (auto simp: kr_msg_body_def bind_eq_Some_conv)
  have v': "version = RTM_VERSION P"
    using rest ev by (cases "version = RTM_VERSION P") auto
  from rest v' obtain hdrlen addrs v6 rti_info type where
    h: "get_u16 P buf (offset + off_rtm_hdrlen) = Some hdrlen"
    and ad: "get_u32 P buf (offset + off_rtm_addrs) = Some addrs"
    and g: "get_rtaddrs P buf addrs (offset + unat hdrlen) = Some (v6, rti_info)"
    and t: "get_u8 buf (offset + off_rtm_type) = Some type"
    and rest': "(if type = RTM_PROPOSAL P then do {
         priority \<leftarrow> get_u8 buf (offset + off_rtm_priority);
         (kind, proposal) \<leftarrow>
           (if v6 \<noteq> 0 then forward_v6proposal P buf offset rti_info
            else forward_v4proposal P buf offset rti_info);
         Some [Log_warnx ''I see a %s RTM_PROPOSAL from %d!''
                 [Arg_str (if v6 \<noteq> 0 then ''IPv6'' else ''IPv4''), Arg_int (uint priority)],
               Compose_engine kind proposal]
       }
       else Some []) = Some evs"
    by (auto simp: bind_eq_Some_conv)
  have t': "type = RTM_PROPOSAL P"
    using rest' ev by (cases "type = RTM_PROPOSAL P") auto
  let ?fwd = "if v6 \<noteq> 0 then forward_v6proposal P buf offset rti_info
      else forward_v4proposal P buf offset rti_info"
  from rest' t' obtain priority kind' proposal' where
    pr: "get_u8 buf (offset + off_rtm_priority) = Some priority"
    and f: "?fwd = Some (kind', proposal')"
    and e: "evs = [Log_warnx ''I see a %s RTM_PROPOSAL from %d!''
              [Arg_str (if v6 \<noteq> 0 then ''IPv6'' else ''IPv4''), Arg_int (uint priority)],
            Compose_engine kind' proposal']"
    by (auto simp: bind_eq_Some_conv simp del: split_paired_Ex)
  with ev have "kind' = kind" "proposal' = proposal" by auto
  with v v' h ad g t t' pr f e show ?thesis by blast
qed

lemma kr_msg_compose:
  assumes run: "kr_msg P buf offset = Iter_next n (Some evs)"
    and ev: "Compose_engine kind proposal \<in> set evs"
  shows "\<exists>hdrlen addrs v6 rti_info priority.
     get_u8 buf (offset + off_rtm_version) = Some (RTM_VERSION P) \<and>
     get_u16 P buf (offset + off_rtm_hdrlen) = Some hdrlen \<and>
     get_u32 P buf (offset + off_rtm_addrs) = Some addrs \<and>
     get_rtaddrs P buf addrs (offset + unat hdrlen) = Some (v6, rti_info) \<and>
     get_u8 buf (offset + off_rtm_type) = Some (RTM_PROPOSAL P) \<and>
     get_u8 buf (offset + off_rtm_priority) = Some priority \<and>
     (if v6 \<noteq> 0 then forward_v6proposal P buf offset rti_info
      else forward_v4proposal P buf offset rti_info) = Some (kind, proposal) \<and>
     evs = [Log_warnx ''I see a %s RTM_PROPOSAL from %d!''
              [Arg_str (if v6 \<noteq> 0 then ''IPv6'' else ''IPv4''), Arg_int (uint priority)],
            Compose_engine kind proposal]"
proof -
  from kr_msg_next [OF run] have "kr_msg_body P buf offset = Some evs" by simp
  from kr_msg_body_compose [OF this ev] show ?thesis .
qed

lemma get_rtaddrs_v6:
  assumes "get_rtaddrs P buf addrs sa = Some (v6, rti_info)"
  shows "v6 = (if \<exists>i p. i < RTAX_MAX P \<and> present addrs i \<and> rti_info i = Some p \<and>
                  get_u8 buf (p + off_sa_family) = Some (AF_INET P) then 0 else 1)"
  using get_rtaddrs_from_v6 [of P buf addrs 0 sa 1 "\<lambda>i. None" v6 rti_info] assms
  by (simp add: get_rtaddrs_def)

lemma get_rtaddrs_absent:
  assumes "get_rtaddrs P buf addrs sa = Some (v6, rti_info)" "j < RTAX_MAX P"
    "\<not> present addrs j"
  shows "rti_info j = None"
  using get_rtaddrs_from_absent [of P buf addrs 0 sa 1 "\<lambda>i. None" v6 rti_info j] assms
  by (simp add: get_rtaddrs_def)

lemma kr_msg_sample:
  "kr_msg lp64 sample_msg 0 =
     Iter_next 128
       (Some [Log_warnx ''I see a %s RTM_PROPOSAL from %d!'' [Arg_str ''IPv4'', Arg_int 7],
              Compose_engine IMSG_SEND_V4PROPOSAL sample_proposal])"
  by code_simp

lemma kr_msg_sample6:
  "kr_msg lp64 sample_msg6 0 =
     Iter_next 128
       (Some [Log_warnx ''I see a %s RTM_PROPOSAL from %d!'' [Arg_str ''IPv6'', Arg_int 7],
              Compose_engine IMSG_SEND_V6PROPOSAL sample_proposal6])"
  by code_simp

text \<open>
  C2. The flag \<open>v6\<close> that \<^verbatim>\<open>get_rtaddrs\<close> returns is 1 (IPv6) unless some slot below
  \<^verbatim>\<open>RTAX_MAX\<close> whose presence bit is set holds a record whose \<^verbatim>\<open>sa_family\<close> is
  \<^verbatim>\<open>AF_INET\<close>, and 0 (IPv4) exactly then. An iteration of the decode loop on a whole
  message of the expected version and of type \<^verbatim>\<open>RTM_PROPOSAL\<close>, whose reads of the header,
  of the records and of the proposal's fields stay inside the bytes received, computes
  the flag from the message's bitmap and the records after its header, logs the family
  and forwards one proposal: as \<^verbatim>\<open>IMSG_SEND_V4PROPOSAL\<close>, with the addresses taken from
  \<^verbatim>\<open>sin_addr\<close>, when the flag is 0, and as \<^verbatim>\<open>IMSG_SEND_V6PROPOSAL\<close>, with the addresses taken
  from \<^verbatim>\<open>sin6_addr\<close>, otherwise. No iteration forwards a proposal in another way.
\<close>

theorem family_classification:
  "(get_rtaddrs P buf addrs sa = Some (v6, rti_info) \<longrightarrow>
      (v6 = 1 \<or> v6 = 0) \<and>
      (v6 = 0 \<longleftrightarrow>
         (\<exists>i p. i < RTAX_MAX P \<and> present addrs i \<and> rti_info i = Some p \<and>
                get_u8 buf (p + off_sa_family) = Some (AF_INET P)))) \<and>
   (\<not> length buf < offset + 2 \<and>
    \<not> length buf < offset + unat (rtm_msglen_at P buf offset) \<and>
    get_u8 buf (offset + off_rtm_version) = Some (RTM_VERSION P) \<and>
    get_u16 P buf (offset + off_rtm_hdrlen) = Some hdrlen \<and>
    get_u32 P buf (offset + off_rtm_addrs) = Some addrs' \<and>
    get_rtaddrs P buf addrs' (offset + unat hdrlen) = Some (v6', rti_info') \<and>
    get_u8 buf (offset + off_rtm_type) = Some (RTM_PROPOSAL P) \<and>
    get_u8 buf (offset + off_rtm_priority) = Some priority \<and>
    fill_proposal P (if v6' = 0 then off_sin_addr else off_sin6_addr) buf offset rti_info' =
      Some proposal' \<longrightarrow>
      kr_msg P buf offset =
        Iter_next (unat (rtm_msglen_at P buf offset))
          (Some [Log_warnx ''I see a %s RTM_PROPOSAL from %d!''
                   [Arg_str (if v6' = 0 then ''IPv4'' else ''IPv6''), Arg_int (uint priority)],
                 Compose_engine
                   (if v6' = 0 then IMSG_SEND_V4PROPOSAL else IMSG_SEND_V6PROPOSAL)
                   proposal']) \<and>
      (v6' = 0 \<longrightarrow> forward_v4proposal P buf offset rti_info' =
         Some (IMSG_SEND_V4PROPOSAL, proposal')) \<and>
      (v6' \<noteq> 0 \<longrightarrow> forward_v6proposal P buf offset rti_info' =
         Some (IMSG_SEND_V6PROPOSAL, proposal'))) \<and>
   (kr_msg P buf offset = Iter_next n (Some evs) \<and> Compose_engine kind proposal \<in> set evs \<longrightarrow>
      (\<exists>hdrlen addrs' v6' rti_info'.
         get_u16 P buf (offset + off_rtm_hdrlen) = Some hdrlen \<and>
         get_u32 P buf (offset + off_rtm_addrs) = Some addrs' \<and>
         get_rtaddrs P buf addrs' (offset + unat hdrlen) = Some (v6', rti_info') \<and>
         (v6' = 0 \<longrightarrow> kind = IMSG_SEND_V4PROPOSAL \<and>
            forward_v4proposal P buf offset rti_info' = Some (kind, proposal)) \<and>
         (v6' \<noteq> 0 \<longrightarrow> kind = IMSG_SEND_V6PROPOSAL \<and>
            forward_v6proposal P buf offset rti_info' = Some (kind, proposal))))"
proof (intro conjI impI)
  assume run: "get_rtaddrs P buf addrs sa = Some (v6, rti_info)"
  from get_rtaddrs_v6 [OF run] show "v6 = 1 \<or> v6 = 0"
    by (simp split: if_splits)
  from get_rtaddrs_v6 [OF run] show "v6 = 0 \<longleftrightarrow>
         (\<exists>i p. i < RTAX_MAX P \<and> present addrs i \<and> rti_info i = Some p \<and>
                get_u8 buf (p + off_sa_family) = Some (AF_INET P))"
    by (simp split: if_splits)
next
  assume a: "\<not> length buf < offset + 2 \<and>
    \<not> length buf < offset + unat (rtm_msglen_at P buf offset) \<and>
    get_u8 buf (offset + off_rtm_version) = Some (RTM_VERSION P) \<and>
    get_u16 P buf (offset + off_rtm_hdrlen) = Some hdrlen \<and>
    get_u32 P buf (offset + off_rtm_addrs) = Some addrs' \<and>
    get_rtaddrs P buf addrs' (offset + unat hdrlen) = Some (v6', rti_info') \<and>
    get_u8 buf (offset + off_rtm_type) = Some (RTM_PROPOSAL P) \<and>
    get_u8 buf (offset + off_rtm_priority) = Some priority \<and>
    fill_proposal P (if v6' = 0 then off_sin_addr else off_sin6_addr) buf offset rti_info' =
      Some proposal'"
  then have body: "kr_msg_body P buf offset =
     Some [Log_warnx ''I see a %s RTM_PROPOSAL from %d!''
             [Arg_str (if v6' = 0 then ''IPv4'' else ''IPv6''), Arg_int (uint priority)],
           Compose_engine (if v6' = 0 then IMSG_SEND_V4PROPOSAL else IMSG_SEND_V6PROPOSAL)
             proposal']"
    by (intro kr_msg_body_proposal [of buf offset P hdrlen addrs' v6' rti_info']) simp_all
  from a show "kr_msg P buf offset =
        Iter_next (unat (rtm_msglen_at P buf offset))
          (Some [Log_warnx ''I see a %s RTM_PROPOSAL from %d!''
                   [Arg_str (if v6' = 0 then ''IPv4'' else ''IPv6''), Arg_int (uint priority)],
                 Compose_engine
                   (if v6' = 0 then IMSG_SEND_V4PROPOSAL else IMSG_SEND_V6PROPOSAL)
                   proposal'])"
    unfolding kr_msg_def body by simp
  {
    assume "v6' = 0"
    with a show "forward_v4proposal P buf offset rti_info' =
         Some (IMSG_SEND_V4PROPOSAL, proposal')"
      by (simp add: forward_v4proposal_def)
  }
  {
    assume "v6' \<noteq> 0"
    with a show "forward_v6proposal P buf offset rti_info' =
         Some (IMSG_SEND_V6PROPOSAL, proposal')"
      by (simp add: forward_v6proposal_def)
  }
next
  assume "kr_msg P buf offset = Iter_next n (Some evs) \<and> Compose_engine kind proposal \<in> set evs"
  then have run: "kr_msg P buf offset = Iter_next n (Some evs)"
    and ev: "Compose_engine kind proposal \<in> set evs" by simp_all
  from kr_msg_compose [OF run ev] obtain hdrlen addrs' v6' rti_info' where
    h: "get_u16 P buf (offset + off_rtm_hdrlen) = Some hdrlen"
      "get_u32 P buf (offset + off_rtm_addrs) = Some addrs'"
      "get_rtaddrs P buf addrs' (offset + unat hdrlen) = Some (v6', rti_info')"
    and f: "(if v6' \<noteq> 0 then forward_v6proposal P buf offset rti_info'
      else forward_v4proposal P buf offset rti_info') = Some (kind, proposal)"
    by blast
  have "v6' = 0 \<longrightarrow> kind = IMSG_SEND_V4PROPOSAL \<and>
            forward_v4proposal P buf offset rti_info' = Some (kind, proposal)"
    using f by (auto simp: forward_v4proposal_def)
  moreover have "v6' \<noteq> 0 \<longrightarrow> kind = IMSG_SEND_V6PROPOSAL \<and>
            forward_v6proposal P buf offset rti_info' = Some (kind, proposal)"
    using f by (auto simp: forward_v6proposal_def)
  ultimately show "\<exists>hdrlen addrs' v6' rti_info'.
         get_u16 P buf (offset + off_rtm_hdrlen) = Some hdrlen \<and>
         get_u32 P buf (offset + off_rtm_addrs) = Some addrs' \<and>
         get_rtaddrs P buf addrs' (offset + unat hdrlen) = Some (v6', rti_info') \<and>
         (v6' = 0 \<longrightarrow> kind = IMSG_SEND_V4PROPOSAL \<and>
            forward_v4proposal P buf offset rti_info' = Some (kind, proposal)) \<and>
         (v6' \<noteq> 0 \<longrightarrow> kind = IMSG_SEND_V6PROPOSAL \<and>
            forward_v6proposal P buf offset rti_info' = Some (kind, proposal))"
    using h by blast
qed

theorem family_classification_witness:
  "\<exists>rti_info rti_info6.
     get_rtaddrs lp64 sample_msg 34 96 = Some (0, rti_info) \<and>
     rti_info 1 = Some 96 \<and> get_u8 sample_msg 97 = Some 2 \<and>
     forward_v4proposal lp64 sample_msg 0 rti_info = Some (IMSG_SEND_V4PROPOSAL, sample_proposal) \<and>
     kr_msg lp64 sample_msg 0 =
       Iter_next 128
         (Some [Log_warnx ''I see a %s RTM_PROPOSAL from %d!'' [Arg_str ''IPv4'', Arg_int 7],
                Compose_engine IMSG_SEND_V4PROPOSAL sample_proposal]) \<and>
     get_rtaddrs lp64 sample_msg6 2 96 = Some (1, rti_info6) \<and>
     rti_info6 1 = Some 96 \<and> get_u8 sample_msg6 97 = Some 24 \<and>
     forward_v6proposal lp64 sample_msg6 0 rti_info6 =
       Some (IMSG_SEND_V6PROPOSAL, sample_proposal6) \<and>
     kr_msg lp64 sample_msg6 0 =
       Iter_next 128
         (Some [Log_warnx ''I see a %s RTM_PROPOSAL from %d!'' [Arg_str ''IPv6'', Arg_int 7],
                Compose_engine IMSG_SEND_V6PROPOSAL sample_proposal6])"
proof -
  let ?evs = "[Log_warnx ''I see a %s RTM_PROPOSAL from %d!'' [Arg_str ''IPv4'', Arg_int 7],
        Compose_engine IMSG_SEND_V4PROPOSAL sample_proposal]"
  let ?evs6 = "[Log_warnx ''I see a %s RTM_PROPOSAL from %d!'' [Arg_str ''IPv6'', Arg_int 7],
        Compose_engine IMSG_SEND_V6PROPOSAL sample_proposal6]"
  have ev: "Compose_engine IMSG_SEND_V4PROPOSAL sample_proposal \<in> set ?evs" by simp
  have ev6: "Compose_engine IMSG_SEND_V6PROPOSAL sample_proposal6 \<in> set ?evs6" by simp
  have h: "get_u16 lp64 sample_msg (0 + off_rtm_hdrlen) = Some 96"
    "get_u32 lp64 sample_msg (0 + off_rtm_addrs) = Some 34"
    "get_u8 sample_msg 97 = Some 2"
    "get_u8 sample_msg (0 + off_rtm_version) = Some (RTM_VERSION lp64)"
    "get_u8 sample_msg (0 + off_rtm_type) = Some (RTM_PROPOSAL lp64)"
    "get_u8 sample_msg (0 + off_rtm_priority) = Some 7"
    "\<not> length sample_msg < 0 + 2"
    "\<not> length sample_msg < 0 + unat (rtm_msglen_at lp64 sample_msg 0)"
    "unat (rtm_msglen_at lp64 sample_msg 0) = 128"
    by code_simp+
  have h6: "get_u16 lp64 sample_msg6 (0 + off_rtm_hdrlen) = Some 96"
    "get_u32 lp64 sample_msg6 (0 + off_rtm_addrs) = Some 2"
    "get_u8 sample_msg6 97 = Some 24"
    "get_u8 sample_msg6 (0 + off_rtm_version) = Some (RTM_VERSION lp64)"
    "get_u8 sample_msg6 (0 + off_rtm_type) = Some (RTM_PROPOSAL lp64)"
    "get_u8 sample_msg6 (0 + off_rtm_priority) = Some 7"
    "\<not> length sample_msg6 < 0 + 2"
    "\<not> length sample_msg6 < 0 + unat (rtm_msglen_at lp64 sample_msg6 0)"
    "unat (rtm_msglen_at lp64 sample_msg6 0) = 128"
    by code_simp+
  have "\<not> Option.is_none (get_rtaddrs lp64 sample_msg 34 96)" by code_simp
  then obtain v6 rti_info where run: "get_rtaddrs lp64 sample_msg 34 96 = Some (v6, rti_info)"
    by (auto simp: Option.is_none_def)
  have "\<not> Option.is_none (get_rtaddrs lp64 sample_msg6 2 96)" by code_simp
  then obtain v6' rti_info6 where
    run6: "get_rtaddrs lp64 sample_msg6 2 96 = Some (v6', rti_info6)"
    by (auto simp: Option.is_none_def)
  note inst = family_classification [where P = lp64 and buf = sample_msg and addrs = 34
      and sa = 96 and ?v6.0 = v6 and rti_info = rti_info and offset = 0 and hdrlen = 96
      and addrs' = 34 and v6' = v6 and rti_info' = rti_info and priority = 7
      and proposal' = sample_proposal and n = 128 and evs = ?evs
      and kind = IMSG_SEND_V4PROPOSAL and proposal = sample_proposal]
  note inst6 = family_classification [where P = lp64 and buf = sample_msg6 and addrs = 2
      and sa = 96 and ?v6.0 = v6' and rti_info = rti_info6 and offset = 0 and hdrlen = 96
      and addrs' = 2 and v6' = v6' and rti_info' = rti_info6 and priority = 7
      and proposal' = sample_proposal6 and n = 128 and evs = ?evs6
      and kind = IMSG_SEND_V6PROPOSAL and proposal = sample_proposal6]
  from inst kr_msg_sample ev h(1,2) run have
    f: "v6 = 0 \<longrightarrow> forward_v4proposal lp64 sample_msg 0 rti_info =
          Some (IMSG_SEND_V4PROPOSAL, sample_proposal)"
    and "v6 \<noteq> 0 \<longrightarrow> IMSG_SEND_V4PROPOSAL = IMSG_SEND_V6PROPOSAL"
    by auto
  then have v0: "v6 = 0" by auto
  from inst6 kr_msg_sample6 ev6 h6(1,2) run6 have
    "v6' = 0 \<longrightarrow> IMSG_SEND_V6PROPOSAL = IMSG_SEND_V4PROPOSAL"
    and f6: "v6' \<noteq> 0 \<longrightarrow> forward_v6proposal lp64 sample_msg6 0 rti_info6 =
          Some (IMSG_SEND_V6PROPOSAL, sample_proposal6)"
    by auto
  then have v1: "v6' \<noteq> 0" by auto
  from inst6 [THEN conjunct1] run6 v1 have v1': "v6' = 1" by blast
  have fp: "fill_proposal lp64 (if v6 = 0 then off_sin_addr else off_sin6_addr) sample_msg 0
      rti_info = Some sample_proposal"
    using f v0 by (auto simp: forward_v4proposal_def)
  have fp6: "fill_proposal lp64 (if v6' = 0 then off_sin_addr else off_sin6_addr) sample_msg6 0
      rti_info6 = Some sample_proposal6"
    using f6 v1 by (auto simp: forward_v6proposal_def)
  have run': "get_rtaddrs lp64 sample_msg 34 (0 + unat (96 :: 16 word)) = Some (v6, rti_info)"
    using run by simp
  have run6': "get_rtaddrs lp64 sample_msg6 2 (0 + unat (96 :: 16 word)) = Some (v6', rti_info6)"
    using run6 by simp
  have k: "kr_msg lp64 sample_msg 0 = Iter_next 128 (Some ?evs)"
    using inst [THEN conjunct2, THEN conjunct1, THEN mp, THEN conjunct1] h run' fp v0
    by simp
  have k6: "kr_msg lp64 sample_msg6 0 = Iter_next 128 (Some ?evs6)"
    using inst6 [THEN conjunct2, THEN conjunct1, THEN mp, THEN conjunct1] h6 run6' fp6 v1
    by simp
  have p: "present (34 :: 32 word) 1" "present (2 :: 32 word) 1" by simp_all
  have r: "rti_info 1 = Some 96"
    using get_rtaddrs_from_first [of lp64 sample_msg 34 0 96 1 "\<lambda>i. None" v6 rti_info 1] run p
    by (auto simp: get_rtaddrs_def lp64_simps less_Suc_eq)
  have r6: "rti_info6 1 = Some 96"
    using get_rtaddrs_from_first [of lp64 sample_msg6 2 0 96 1 "\<lambda>i. None" v6' rti_info6 1] run6 p
    by (auto simp: get_rtaddrs_def lp64_simps less_Suc_eq)
  have a: "get_rtaddrs lp64 sample_msg 34 96 = Some (0, rti_info)" using run v0 by simp
  have a6: "get_rtaddrs lp64 sample_msg6 2 96 = Some (1, rti_info6)" using run6 v1' by simp
  have b: "forward_v4proposal lp64 sample_msg 0 rti_info =
      Some (IMSG_SEND_V4PROPOSAL, sample_proposal)" using f v0 by simp
  have b6: "forward_v6proposal lp64 sample_msg6 0 rti_info6 =
      Some (IMSG_SEND_V6PROPOSAL, sample_proposal6)" using f6 v1 by simp
  show ?thesis
    by (intro exI conjI) (rule a r h(3) b k a6 r6 h6(3) b6 k6)+
qed

subsection \<open>Fields of a proposal\<close>

lemma fill_proposal_fields:
  assumes "fill_proposal P off_addr buf rtm rti_info = Some pr"
  shows "get_u32 P buf (rtm + off_rtm_addrs) = Some (proposal_addrs pr)"
    and "get_u32 P buf (rtm + off_rtm_inits) = Some (proposal_inits pr)"
    and "proposal_inits pr AND RTV_MTU P = 0 \<Longrightarrow> proposal_mtu pr = 0"
    and "rti_info (RTAX_GATEWAY P) = None \<Longrightarrow> proposal_gateway pr = replicate (sizeof_addr P) 0"
    and "rti_info (RTAX_IFA P) = None \<Longrightarrow> proposal_ifa pr = replicate (sizeof_addr P) 0"
    and "rti_info (RTAX_NETMASK P) = None \<Longrightarrow> proposal_netmask pr = replicate (sizeof_addr P) 0"
    and "rti_info (RTAX_DNS1 P) = None \<Longrightarrow> proposal_dns1 pr = replicate (sizeof_addr P) 0"
    and "rti_info (RTAX_DNS2 P) = None \<Longrightarrow> proposal_dns2 pr = replicate (sizeof_addr P) 0"
    and "rti_info (RTAX_DNS3 P) = None \<Longrightarrow> proposal_dns3 pr = replicate (sizeof_addr P) 0"
    and "rti_info (RTAX_DNS4 P) = None \<Longrightarrow> proposal_dns4 pr = replicate (sizeof_addr P) 0"
    and "rti_info (RTAX_STATIC P) = None \<Longrightarrow>
           proposal_rtstatic pr = replicate (sizeof_rtstatic P) 0"
    and "rti_info (RTAX_SEARCH P) = None \<Longrightarrow>
           proposal_rtsearch pr = replicate (sizeof_rtsearch P) 0 \<and> proposal_rtsearch_encoded pr = 0"
proof -
  let ?z = "zeroed_proposal P"
  from assms obtain addrs inits flags seq index priority mtu rtstatic encoded rtsearch
      gateway ifa netmask dns1 dns2 dns3 dns4 where
    rd: "get_u32 P buf (rtm + off_rtm_addrs) = Some addrs"
      "get_u32 P buf (rtm + off_rtm_inits) = Some inits"
    and mtu: "(if inits AND RTV_MTU P \<noteq> 0 then get_u32 P buf (rtm + off_rmx_mtu)
              else Some (proposal_mtu ?z)) = Some mtu"
    and st: "copy_slot buf rti_info (RTAX_STATIC P) off_sr_static (proposal_rtstatic ?z) = Some rtstatic"
    and en: "(case rti_info (RTAX_SEARCH P) of
                   None \<Rightarrow> Some (proposal_rtsearch_encoded ?z)
                 | Some p \<Rightarrow> map_option
                     (\<lambda>fam. if fam = AF_INET6 P then 1 else proposal_rtsearch_encoded ?z)
                     (get_u8 buf (p + off_sa_family))) = Some encoded"
    and se: "copy_slot buf rti_info (RTAX_SEARCH P) off_sr_search (proposal_rtsearch ?z) = Some rtsearch"
    and gw: "copy_slot buf rti_info (RTAX_GATEWAY P) off_addr (proposal_gateway ?z) = Some gateway"
    and ifa: "copy_slot buf rti_info (RTAX_IFA P) off_addr (proposal_ifa ?z) = Some ifa"
    and nm: "copy_slot buf rti_info (RTAX_NETMASK P) off_addr (proposal_netmask ?z) = Some netmask"
    and d1: "copy_slot buf rti_info (RTAX_DNS1 P) off_addr (proposal_dns1 ?z) = Some dns1"
    and d2: "copy_slot buf rti_info (RTAX_DNS2 P) off_addr (proposal_dns2 ?z) = Some dns2"
    and d3: "copy_slot buf rti_info (RTAX_DNS3 P) off_addr (proposal_dns3 ?z) = Some dns3"
    and d4: "copy_slot buf rti_info (RTAX_DNS4 P) off_addr (proposal_dns4 ?z) = Some dns4"
    and pr: "pr = \<lparr> proposal_addrs = addrs, proposal_inits = inits, proposal_flags = flags,
            proposal_xid = seq, proposal_index = index, proposal_source = priority,
            proposal_mtu = mtu, proposal_rtstatic = rtstatic, proposal_rtsearch = rtsearch,
            proposal_rtsearch_encoded = encoded, proposal_gateway = gateway,
            proposal_ifa = ifa, proposal_netmask = netmask, proposal_dns1 = dns1,
            proposal_dns2 = dns2, proposal_dns3 = dns3, proposal_dns4 = dns4 \<rparr>"
    unfolding fill_proposal_def Let_def bind_eq_Some_conv by blast
  show "get_u32 P buf (rtm + off_rtm_addrs) = Some (proposal_addrs pr)"
    and "get_u32 P buf (rtm + off_rtm_inits) = Some (proposal_inits pr)"
    using rd by (simp_all add: pr)
  show "proposal_mtu pr = 0" if "proposal_inits pr AND RTV_MTU P = 0"
    using that mtu by (simp add: pr zeroed_proposal_def)
  show "proposal_gateway pr = replicate (sizeof_addr P) 0" if "rti_info (RTAX_GATEWAY P) = None"
    using that gw by (simp add: pr copy_slot_def zeroed_proposal_def)
  show "proposal_ifa pr = replicate (sizeof_addr P) 0" if "rti_info (RTAX_IFA P) = None"
    using that ifa by (simp add: pr copy_slot_def zeroed_proposal_def)
  show "proposal_netmask pr = replicate (sizeof_addr P) 0" if "rti_info (RTAX_NETMASK P) = None"
    using that nm by (simp add: pr copy_slot_def zeroed_proposal_def)
  show "proposal_dns1 pr = replicate (sizeof_addr P) 0" if "rti_info (RTAX_DNS1 P) = None"
    using that d1 by (simp add: pr copy_slot_def zeroed_proposal_def)
  show "proposal_dns2 pr = replicate (sizeof_addr P) 0" if "rti_info (RTAX_DNS2 P) = None"
    using that d2 by (simp add: pr copy_slot_def zeroed_proposal_def)
  show "proposal_dns3 pr = replicate (sizeof_addr P) 0" if "rti_info (RTAX_DNS3 P) = None"
    using that d3 by (simp add: pr copy_slot_def zeroed_proposal_def)
  show "proposal_dns4 pr = replicate (sizeof_addr P) 0" if "rti_info (RTAX_DNS4 P) = None"
    using that d4 by (simp add: pr copy_slot_def zeroed_proposal_def)
  show "proposal_rtstatic pr = replicate (sizeof_rtstatic P) 0" if "rti_info (RTAX_STATIC P) = None"
    using that st by (simp add: pr copy_slot_def zeroed_proposal_def)
  show "proposal_rtsearch pr = replicate (sizeof_rtsearch P) 0 \<and> proposal_rtsearch_encoded pr = 0"
    if "rti_info (RTAX_SEARCH P) = None"
    using that se en by (simp add: pr copy_slot_def zeroed_proposal_def)
qed

lemma slots_in_range_lp64: "slots_in_range lp64"
  by (simp add: slots_in_range_def lp64_simps)

text \<open>
  C3. Take an iteration of the decode loop that forwards a proposal, on a platform whose
  slot numbers are indices of \<^verbatim>\<open>rti_info\<close>. The proposal's bitmaps are the message's
  \<^verbatim>\<open>rtm_addrs\<close> and \<^verbatim>\<open>rtm_inits\<close>. Each of gateway, interface address, netmask, DNS 1 to 4,
  the static-route blob and the search-domain blob (with its encoding flag) whose bit is
  clear in the presence bitmap is all zero in the proposal, and the MTU is 0 when
  \<^verbatim>\<open>RTV_MTU\<close> is clear in the init bitmap, whatever the message's bytes are.
\<close>

theorem absent_fields_zero:
  assumes slots: "slots_in_range P"
    and run: "kr_msg P buf offset = Iter_next n (Some evs)"
    and ev: "Compose_engine kind proposal \<in> set evs"
  shows "get_u32 P buf (offset + off_rtm_addrs) = Some (proposal_addrs proposal) \<and>
    get_u32 P buf (offset + off_rtm_inits) = Some (proposal_inits proposal) \<and>
    (\<not> present (proposal_addrs proposal) (RTAX_GATEWAY P) \<longrightarrow>
       proposal_gateway proposal = replicate (sizeof_addr P) 0) \<and>
    (\<not> present (proposal_addrs proposal) (RTAX_IFA P) \<longrightarrow>
       proposal_ifa proposal = replicate (sizeof_addr P) 0) \<and>
    (\<not> present (proposal_addrs proposal) (RTAX_NETMASK P) \<longrightarrow>
       proposal_netmask proposal = replicate (sizeof_addr P) 0) \<and>
    (\<not> present (proposal_addrs proposal) (RTAX_DNS1 P) \<longrightarrow>
       proposal_dns1 proposal = replicate (sizeof_addr P) 0) \<and>
    (\<not> present (proposal_addrs proposal) (RTAX_DNS2 P) \<longrightarrow>
       proposal_dns2 proposal = replicate (sizeof_addr P) 0) \<and>
    (\<not> present (proposal_addrs proposal) (RTAX_DNS3 P) \<longrightarrow>
       proposal_dns3 proposal = replicate (sizeof_addr P) 0) \<and>
    (\<not> present (proposal_addrs proposal) (RTAX_DNS4 P) \<longrightarrow>
       proposal_dns4 proposal = replicate (sizeof_addr P) 0) \<and>
    (\<not> present (proposal_addrs proposal) (RTAX_STATIC P) \<longrightarrow>
       proposal_rtstatic proposal = replicate (sizeof_rtstatic P) 0) \<and>
    (\<not> present (proposal_addrs proposal) (RTAX_SEARCH P) \<longrightarrow>
       proposal_rtsearch proposal = replicate (sizeof_rtsearch P) 0 \<and>
       proposal_rtsearch_encoded proposal = 0) \<and>
    (proposal_inits proposal AND RTV_MTU P = 0 \<longrightarrow> proposal_mtu proposal = 0)"
proof -
  from kr_msg_compose [OF run ev] obtain hdrlen :: "16 word" and addrs v6 rti_info where
    ad: "get_u32 P buf (offset + off_rtm_addrs) = Some addrs"
    and g: "get_rtaddrs P buf addrs (offset + unat hdrlen) = Some (v6, rti_info)"
    and f: "(if v6 \<noteq> 0 then forward_v6proposal P buf offset rti_info
      else forward_v4proposal P buf offset rti_info) = Some (kind, proposal)"
    by blast
  from f obtain off_addr where fill: "fill_proposal P off_addr buf offset rti_info = Some proposal"
    by (auto simp: forward_v4proposal_def forward_v6proposal_def split: if_splits)
  note F = fill_proposal_fields [OF fill]
  from F(1) ad have addrs: "proposal_addrs proposal = addrs" by simp
  have absent: "rti_info j = None" if "j < RTAX_MAX P" "\<not> present (proposal_addrs proposal) j" for j
    using get_rtaddrs_absent [OF g that(1)] that(2) addrs by simp
  from slots have r: "RTAX_GATEWAY P < RTAX_MAX P" "RTAX_NETMASK P < RTAX_MAX P"
     "RTAX_IFA P < RTAX_MAX P" "RTAX_STATIC P < RTAX_MAX P" "RTAX_SEARCH P < RTAX_MAX P"
     "RTAX_DNS1 P < RTAX_MAX P" "RTAX_DNS2 P < RTAX_MAX P" "RTAX_DNS3 P < RTAX_MAX P"
     "RTAX_DNS4 P < RTAX_MAX P"
    by (simp_all add: slots_in_range_def)
  show ?thesis
    using F(1,2) F(3) F(4) [OF absent [OF r(1)]] F(5) [OF absent [OF r(3)]]
      F(6) [OF absent [OF r(2)]] F(7) [OF absent [OF r(6)]] F(8) [OF absent [OF r(7)]]
      F(9) [OF absent [OF r(8)]] F(10) [OF absent [OF r(9)]] F(11) [OF absent [OF r(4)]]
      F(12) [OF absent [OF r(5)]]
    by blast
qed

theorem absent_fields_zero_witness:
  "slots_in_range lp64 \<and>
   kr_msg lp64 sample_msg 0 =
     Iter_next 128
       (Some [Log_warnx ''I see a %s RTM_PROPOSAL from %d!'' [Arg_str ''IPv4'', Arg_int 7],
              Compose_engine IMSG_SEND_V4PROPOSAL sample_proposal]) \<and>
   proposal_addrs sample_proposal = 34 \<and> proposal_inits sample_proposal = 0 \<and>
   get_u32 lp64 sample_msg (0 + off_rmx_mtu) = Some 1500 \<and>
   proposal_mtu sample_proposal = 0 \<and>
   proposal_netmask sample_proposal = [0, 0, 0, 0] \<and>
   proposal_dns1 sample_proposal = [0, 0, 0, 0] \<and>
   proposal_rtstatic sample_proposal = replicate 128 0"
proof -
  let ?evs = "[Log_warnx ''I see a %s RTM_PROPOSAL from %d!'' [Arg_str ''IPv4'', Arg_int 7],
        Compose_engine IMSG_SEND_V4PROPOSAL sample_proposal]"
  have ev: "Compose_engine IMSG_SEND_V4PROPOSAL sample_proposal \<in> set ?evs" by simp
  have a: "proposal_addrs sample_proposal = 34" "proposal_inits sample_proposal = 0"
    by (simp_all add: sample_proposal_def zeroed_proposal_def)
  have m: "get_u32 lp64 sample_msg (0 + off_rmx_mtu) = Some 1500" by code_simp
  have np: "\<not> present (34 :: 32 word) 2" "\<not> present (34 :: 32 word) 17"
    "\<not> present (34 :: 32 word) 15" by simp_all
  from absent_fields_zero [OF slots_in_range_lp64 kr_msg_sample ev] a np
  have "proposal_mtu sample_proposal = 0"
    "proposal_netmask sample_proposal = replicate 4 0"
    "proposal_dns1 sample_proposal = replicate 4 0"
    "proposal_rtstatic sample_proposal = replicate 128 0"
    by (simp_all add: lp64_simps)
  with slots_in_range_lp64 kr_msg_sample a m show ?thesis
    by (simp add: numeral_eq_Suc)
qed

subsection \<open>The loop: framing errors and termination\<close>

lemma get_u16_msglen_some:
  assumes "get_u16 P buf (offset + off_rtm_msglen) = Some msglen"
  shows "\<not> length buf < offset + 2" and "msglen = rtm_msglen_at P buf offset"
  using assms
  by (auto simp: get_u16_def get_bytes_def rtm_msglen_at_def off_rtm_msglen_def
      split: if_splits)

lemma kr_msg_truncated:
  assumes "length buf < offset + 2 \<or>
    (\<exists>msglen. get_u16 P buf (offset + off_rtm_msglen) = Some msglen \<and>
              length buf < offset + unat msglen)"
  shows "kr_msg P buf offset = Iter_fatalx ''rtmsg_process: partial rtm in buffer''"
  using assms by (auto simp: kr_msg_def dest: get_u16_msglen_some(2))

lemma kr_msg_zero:
  assumes "get_u16 P buf (offset + off_rtm_msglen) = Some 0"
  shows "kr_msg P buf offset = Iter_next 0 (kr_msg_body P buf offset)"
  using get_u16_msglen_some [OF assms] by (simp add: kr_msg_def)

lemma kr_loop_step:
  assumes "offset < length buf" "kr_msg P buf offset = Iter_next n body"
  shows "kr_loop P (Suc fuel) buf offset evs =
     kr_loop P fuel buf (offset + n)
       (evs @ (case body of None \<Rightarrow> [Stale_body] | Some es \<Rightarrow> es))"
  using assms by simp

text \<open>Every offset the loop reaches is reached after finitely many iterations.\<close>

lemma kr_loop_reaches:
  assumes "offset \<in> msg_offsets P buf"
  shows "\<exists>k evs. \<forall>fuel. kr_loop P (k + fuel) buf 0 [] = kr_loop P fuel buf offset evs"
  using assms
proof (induction rule: msg_offsets.induct)
  case first
  have "\<forall>fuel. kr_loop P (0 + fuel) buf 0 [] = kr_loop P fuel buf 0 []" by simp
  then show ?case by blast
next
  case (step offset msglen body)
  then obtain k evs where
    k: "\<forall>fuel. kr_loop P (k + fuel) buf 0 [] = kr_loop P fuel buf offset evs" by blast
  have "kr_loop P (Suc k + fuel) buf 0 [] =
      kr_loop P fuel buf (offset + msglen)
        (evs @ (case body of None \<Rightarrow> [Stale_body] | Some es \<Rightarrow> es))" for fuel
    using k [THEN spec, of "Suc fuel"] kr_loop_step [OF step.hyps(2,3)] by simp
  then show ?case by blast
qed

text \<open>More fuel does not change a run that has ended.\<close>

lemma kr_loop_more_fuel:
  assumes "fst (kr_loop P fuel buf offset evs) \<noteq> Out_of_fuel"
  shows "kr_loop P (fuel + k) buf offset evs = kr_loop P fuel buf offset evs"
  using assms
proof (induction fuel arbitrary: offset evs)
  case 0
  then show ?case by simp
next
  case (Suc fuel)
  show ?case
  proof (cases "offset < length buf")
    case False
    then show ?thesis by simp
  next
    case True
    show ?thesis
    proof (cases "kr_msg P buf offset")
      case (Iter_next n body)
      let ?evs = "evs @ (case body of None \<Rightarrow> [Stale_body] | Some es \<Rightarrow> es)"
      from True Iter_next Suc.prems
      have "fst (kr_loop P fuel buf (offset + n) ?evs) \<noteq> Out_of_fuel" by simp
      from Suc.IH [OF this] True Iter_next show ?thesis by simp
    qed (use True in simp_all)
  qed
qed

text \<open>A message that declares length zero and is not refused: the loop stays where it is.\<close>

lemma kr_loop_stuck:
  assumes "offset < length buf" "kr_msg P buf offset = Iter_next 0 body"
  shows "fst (kr_loop P fuel buf offset evs) = Out_of_fuel"
  using assms by (induction fuel arbitrary: evs) simp_all

lemma kr_loop_never_ends:
  assumes mem: "offset \<in> msg_offsets P buf" and lt: "offset < length buf"
    and z: "kr_msg P buf offset = Iter_next 0 body"
  shows "fst (kr_loop P fuel buf 0 []) = Out_of_fuel"
proof (rule ccontr)
  assume e: "fst (kr_loop P fuel buf 0 []) \<noteq> Out_of_fuel"
  from kr_loop_reaches [OF mem] obtain k evs where
    k: "\<forall>fuel. kr_loop P (k + fuel) buf 0 [] = kr_loop P fuel buf offset evs" by blast
  have "kr_loop P (fuel + k) buf 0 [] = kr_loop P fuel buf 0 []"
    by (rule kr_loop_more_fuel [OF e])
  moreover have "kr_loop P (k + fuel) buf 0 [] = kr_loop P fuel buf offset evs"
    using k by blast
  moreover have "fst (kr_loop P fuel buf offset evs) = Out_of_fuel"
    by (rule kr_loop_stuck [OF lt z])
  ultimately show False using e by (simp add: add.commute)
qed

lemma kr_loop_positive:
  assumes pos: "\<forall>offset \<in> msg_offsets P buf. get_u16 P buf (offset + off_rtm_msglen) \<noteq> Some 0"
    and "offset \<in> msg_offsets P buf" "length buf - offset < fuel"
  shows "fst (kr_loop P fuel buf offset evs) \<noteq> Out_of_fuel"
  using assms(2,3)
proof (induction fuel arbitrary: offset evs)
  case 0
  then show ?case by simp
next
  case (Suc fuel)
  show ?case
  proof (cases "offset < length buf")
    case False
    then show ?thesis by simp
  next
    case True
    show ?thesis
    proof (cases "kr_msg P buf offset")
      case (Iter_next n body)
      let ?evs = "evs @ (case body of None \<Rightarrow> [Stale_body] | Some es \<Rightarrow> es)"
      from kr_msg_next [OF Iter_next] have
        m: "get_u16 P buf (offset + off_rtm_msglen) = Some (rtm_msglen_at P buf offset)"
          "n = unat (rtm_msglen_at P buf offset)" by simp_all
      from pos Suc.prems(1) m(1) have "rtm_msglen_at P buf offset \<noteq> 0" by auto
      then have n: "0 < n" using m(2) by (simp add: unat_gt_0)
      have mem: "offset + n \<in> msg_offsets P buf"
        by (rule msg_offsets.step [OF Suc.prems(1) True Iter_next])
      have "length buf - (offset + n) < fuel" using Suc.prems(2) True n by linarith
      from Suc.IH [OF mem this, of ?evs] True Iter_next show ?thesis by simp
    qed (use True in simp_all)
  qed
qed

text \<open>
  C1. At any offset, if fewer than \<^verbatim>\<open>sizeof(u_short)\<close> bytes remain, or if the header's
  \<^verbatim>\<open>rtm_msglen\<close> reaches past the end of the bytes read, the iteration ends in
  \<^verbatim>\<open>fatalx("rtmsg_process: partial rtm in buffer")\<close>: it neither reads outside the buffer
  nor goes on to the next message. If the loop reaches such an offset below the length,
  every run of \<^verbatim>\<open>kr_dispatch_msg\<close> on the buffer ends in that \<^verbatim>\<open>fatalx\<close>, which exits the
  process.
\<close>

theorem partial_message_fatal:
  assumes "length buf < offset + 2 \<or>
    (\<exists>msglen. get_u16 P buf (offset + off_rtm_msglen) = Some msglen \<and>
              length buf < offset + unat msglen)"
  shows "kr_msg P buf offset = Iter_fatalx ''rtmsg_process: partial rtm in buffer'' \<and>
    (offset \<in> msg_offsets P buf \<and> offset < length buf \<longrightarrow>
       (\<exists>k. \<forall>fuel. k < fuel \<longrightarrow>
          fst (kr_dispatch_msg P fuel (Read_bytes buf)) =
            Fatal ''rtmsg_process: partial rtm in buffer''))"
proof (intro conjI impI)
  show f: "kr_msg P buf offset = Iter_fatalx ''rtmsg_process: partial rtm in buffer''"
    by (rule kr_msg_truncated [OF assms])
  assume "offset \<in> msg_offsets P buf \<and> offset < length buf"
  then have mem: "offset \<in> msg_offsets P buf" and lt: "offset < length buf" by simp_all
  from kr_loop_reaches [OF mem] obtain k evs where
    k: "\<forall>fuel. kr_loop P (k + fuel) buf 0 [] = kr_loop P fuel buf offset evs" by blast
  have "fst (kr_dispatch_msg P fuel (Read_bytes buf)) =
      Fatal ''rtmsg_process: partial rtm in buffer''" if "k < fuel" for fuel
  proof -
    from that obtain d where d: "fuel = k + Suc d"
      by (metis add_Suc_right less_iff_Suc_add)
    have "kr_loop P fuel buf 0 [] = kr_loop P (Suc d) buf offset evs"
      using k [THEN spec, of "Suc d"] d by simp
    moreover have "fst (kr_loop P (Suc d) buf offset evs) =
        Fatal ''rtmsg_process: partial rtm in buffer''"
      using lt f by simp
    ultimately have "fst (kr_loop P fuel buf 0 []) = Fatal ''rtmsg_process: partial rtm in buffer''"
      by simp
    moreover have "buf \<noteq> []" using lt by auto
    ultimately show ?thesis by (simp add: kr_dispatch_msg_def)
  qed
  then show "\<exists>k. \<forall>fuel. k < fuel \<longrightarrow>
          fst (kr_dispatch_msg P fuel (Read_bytes buf)) =
            Fatal ''rtmsg_process: partial rtm in buffer''"
    by blast
qed

theorem partial_message_fatal_witness:
  "get_u16 lp64 (sample_msg @ [200, 0, 0]) (128 + off_rtm_msglen) = Some 200 \<and>
   length (sample_msg @ [200, 0, 0]) < 128 + unat (200 :: 16 word) \<and>
   128 \<in> msg_offsets lp64 (sample_msg @ [200, 0, 0]) \<and>
   kr_msg lp64 (sample_msg @ [200, 0, 0]) 128 =
     Iter_fatalx ''rtmsg_process: partial rtm in buffer'' \<and>
   (\<exists>k. \<forall>fuel. k < fuel \<longrightarrow>
      fst (kr_dispatch_msg lp64 fuel (Read_bytes (sample_msg @ [200, 0, 0]))) =
        Fatal ''rtmsg_process: partial rtm in buffer'')"
proof -
  let ?buf = "sample_msg @ [200, 0, 0]"
  have m: "get_u16 lp64 ?buf (128 + off_rtm_msglen) = Some 200" by code_simp
  have l: "length ?buf = 131" by code_simp
  have s: "kr_msg lp64 ?buf 0 =
     Iter_next 128
       (Some [Log_warnx ''I see a %s RTM_PROPOSAL from %d!'' [Arg_str ''IPv4'', Arg_int 7],
              Compose_engine IMSG_SEND_V4PROPOSAL sample_proposal])"
    by code_simp
  have mem: "128 \<in> msg_offsets lp64 ?buf"
    using msg_offsets.step [OF msg_offsets.first _ s] l by simp
  have t: "length ?buf < 128 + 2 \<or>
    (\<exists>msglen. get_u16 lp64 ?buf (128 + off_rtm_msglen) = Some msglen \<and>
              length ?buf < 128 + unat msglen)"
    using m l by simp
  have u: "length ?buf < 128 + unat (200 :: 16 word)"
    unfolding l by simp
  have pre: "128 \<in> msg_offsets lp64 ?buf \<and> 128 < length ?buf"
    unfolding l using mem by simp
  note A = partial_message_fatal [OF t, THEN conjunct1]
  note B = partial_message_fatal [OF t, THEN conjunct2, THEN mp, OF pre]
  show ?thesis
    by (intro conjI) (rule m u mem A B)+
qed

text \<open>
  C10. If no offset the loop reaches holds a message whose \<^verbatim>\<open>rtm_msglen\<close> is zero, the
  loop ends within as many iterations as the buffer has bytes, and allowing more makes
  no difference. An iteration that gets to the loop's increment with \<^verbatim>\<open>rtm_msglen\<close> zero
  adds zero to the offset, and from then on the loop never ends; so when the loop reaches
  an offset below the length whose \<^verbatim>\<open>rtm_msglen\<close> is zero, no run of \<^verbatim>\<open>kr_dispatch_msg\<close> on
  the buffer ends, whatever the message's other bytes are. Such buffers exist on every
  platform: three zero bytes are one.
\<close>

theorem decode_loop_termination:
  "((\<forall>offset \<in> msg_offsets P buf. get_u16 P buf (offset + off_rtm_msglen) \<noteq> Some 0) \<longrightarrow>
      (\<exists>res. fst res \<noteq> Out_of_fuel \<and>
         (\<forall>fuel. length buf < fuel \<longrightarrow> kr_loop P fuel buf 0 [] = res))) \<and>
   (offset < length buf \<and> get_u16 P buf (offset + off_rtm_msglen) = Some 0 \<longrightarrow>
      kr_msg P buf offset = Iter_next 0 (kr_msg_body P buf offset) \<and>
      (\<forall>fuel evs. fst (kr_loop P fuel buf offset evs) = Out_of_fuel) \<and>
      (offset \<in> msg_offsets P buf \<longrightarrow>
         (\<forall>fuel. fst (kr_dispatch_msg P fuel (Read_bytes buf)) = Out_of_fuel))) \<and>
   (\<forall>fuel. fst (kr_dispatch_msg P fuel (Read_bytes [0, 0, 0])) = Out_of_fuel)"
proof (intro conjI impI)
  assume pos: "\<forall>offset \<in> msg_offsets P buf. get_u16 P buf (offset + off_rtm_msglen) \<noteq> Some 0"
  let ?res = "kr_loop P (Suc (length buf)) buf 0 []"
  have e: "fst ?res \<noteq> Out_of_fuel"
    by (rule kr_loop_positive [OF pos msg_offsets.first]) simp
  have "kr_loop P fuel buf 0 [] = ?res" if "length buf < fuel" for fuel
  proof -
    from that obtain d where "fuel = Suc (length buf) + d"
      by (metis add_Suc less_iff_Suc_add)
    with kr_loop_more_fuel [OF e, of d] show ?thesis by simp
  qed
  with e show "\<exists>res. fst res \<noteq> Out_of_fuel \<and>
         (\<forall>fuel. length buf < fuel \<longrightarrow> kr_loop P fuel buf 0 [] = res)"
    by blast
next
  assume a: "offset < length buf \<and> get_u16 P buf (offset + off_rtm_msglen) = Some 0"
  then have lt: "offset < length buf"
    and g: "get_u16 P buf (offset + off_rtm_msglen) = Some 0" by simp_all
  show z: "kr_msg P buf offset = Iter_next 0 (kr_msg_body P buf offset)"
    by (rule kr_msg_zero [OF g])
  show "\<forall>fuel evs. fst (kr_loop P fuel buf offset evs) = Out_of_fuel"
    using kr_loop_stuck [OF lt z] by blast
  assume mem: "offset \<in> msg_offsets P buf"
  have "buf \<noteq> []" using lt by auto
  then show "\<forall>fuel. fst (kr_dispatch_msg P fuel (Read_bytes buf)) = Out_of_fuel"
    using kr_loop_never_ends [OF mem lt z] by (simp add: kr_dispatch_msg_def)
next
  have "get_u16 P [0, 0, 0] (0 + off_rtm_msglen) = Some 0"
    by (simp add: get_u16_def get_bytes_def off_rtm_msglen_def host_word_def)
  from kr_msg_zero [OF this]
  have "fst (kr_loop P fuel [0, 0, 0] 0 []) = Out_of_fuel" for fuel
    by (intro kr_loop_stuck) simp_all
  then show "\<forall>fuel. fst (kr_dispatch_msg P fuel (Read_bytes [0, 0, 0])) = Out_of_fuel"
    by (simp add: kr_dispatch_msg_def)
qed

lemma msg_offsets_sample:
  assumes "offset \<in> msg_offsets lp64 sample_msg"
  shows "offset = 0 \<or> offset = 128"
  using assms
proof (induction rule: msg_offsets.induct)
  case first
  then show ?case by simp
next
  case (step offset msglen body)
  have l: "length sample_msg = 128" by code_simp
  from step.IH step.hyps(2) l have "offset = 0" by auto
  with step.hyps(3) kr_msg_sample show ?case by simp
qed

theorem decode_loop_termination_witness:
  "msg_offsets lp64 sample_msg \<subseteq> {0, 128} \<and>
   get_u16 lp64 sample_msg (0 + off_rtm_msglen) = Some 128 \<and>
   get_u16 lp64 sample_msg (128 + off_rtm_msglen) = None \<and>
   (\<exists>res. fst res \<noteq> Out_of_fuel \<and>
      (\<forall>fuel. length sample_msg < fuel \<longrightarrow> kr_loop lp64 fuel sample_msg 0 [] = res)) \<and>
   kr_loop lp64 129 sample_msg 0 [] =
     (Returned,
      [Log_warnx ''I see a %s RTM_PROPOSAL from %d!'' [Arg_str ''IPv4'', Arg_int 7],
       Compose_engine IMSG_SEND_V4PROPOSAL sample_proposal]) \<and>
   kr_msg lp64 stale_msg 0 = Iter_next 16 None \<and>
   16 \<in> msg_offsets lp64 stale_msg \<and>
   get_u16 lp64 stale_msg (16 + off_rtm_msglen) = Some 0 \<and>
   kr_msg lp64 stale_msg 16 = Iter_next 0 (kr_msg_body lp64 stale_msg 16) \<and>
   (\<forall>fuel evs. fst (kr_loop lp64 fuel stale_msg 16 evs) = Out_of_fuel) \<and>
   (\<forall>fuel. fst (kr_dispatch_msg lp64 fuel (Read_bytes stale_msg)) = Out_of_fuel) \<and>
   (\<forall>fuel. fst (kr_dispatch_msg lp64 fuel (Read_bytes [0, 0, 0])) = Out_of_fuel)"
proof -
  have sub: "msg_offsets lp64 sample_msg \<subseteq> {0, 128}"
    using msg_offsets_sample by auto
  have a: "get_u16 lp64 sample_msg (0 + off_rtm_msglen) = Some 128"
    "get_u16 lp64 sample_msg (128 + off_rtm_msglen) = None" by code_simp+
  have pos: "\<forall>offset \<in> msg_offsets lp64 sample_msg.
      get_u16 lp64 sample_msg (offset + off_rtm_msglen) \<noteq> Some 0"
  proof
    fix offset assume "offset \<in> msg_offsets lp64 sample_msg"
    then have "offset = 0 \<or> offset = 128" by (rule msg_offsets_sample)
    then show "get_u16 lp64 sample_msg (offset + off_rtm_msglen) \<noteq> Some 0"
      using a by auto
  qed
  have run: "kr_loop lp64 129 sample_msg 0 [] =
     (Returned,
      [Log_warnx ''I see a %s RTM_PROPOSAL from %d!'' [Arg_str ''IPv4'', Arg_int 7],
       Compose_engine IMSG_SEND_V4PROPOSAL sample_proposal])"
    by code_simp
  have s: "kr_msg lp64 stale_msg 0 = Iter_next 16 None" by code_simp
  have l: "0 < length stale_msg" "16 < length stale_msg" by code_simp+
  have mem: "16 \<in> msg_offsets lp64 stale_msg"
    using msg_offsets.step [OF msg_offsets.first l(1) s] by simp
  have z: "get_u16 lp64 stale_msg (16 + off_rtm_msglen) = Some 0" by code_simp
  have pre: "16 < length stale_msg \<and> get_u16 lp64 stale_msg (16 + off_rtm_msglen) = Some 0"
    using l(2) z by simp
  note t1 = decode_loop_termination [of lp64 sample_msg 0, THEN conjunct1, THEN mp, OF pos]
  note t2 = decode_loop_termination [of lp64 stale_msg 16, THEN conjunct2, THEN conjunct1,
      THEN mp, OF pre]
  note t2a = t2 [THEN conjunct1]
  note t2b = t2 [THEN conjunct2, THEN conjunct1]
  note t2c = t2 [THEN conjunct2, THEN conjunct2, THEN mp, OF mem]
  note t3 = decode_loop_termination [of lp64 "[0, 0, 0]" 0, THEN conjunct2, THEN conjunct2]
  show ?thesis
    by (intro conjI) (rule sub a t1 run s mem z t2a t2b t2c t3)+
qed

section \<open>Properties of the installer\<close>

subsection \<open>The header as bytes\<close>

lemma length_le_bytes: "length (le_bytes n w) = n"
  by (induction n arbitrary: w) simp_all

lemma length_host_bytes: "length (host_bytes P n w) = n"
  by (simp add: host_bytes_def length_le_bytes)

lemma length_rtm_bytes:
  assumes "56 \<le> length (rtm_rmx rtm)"
  shows "length (rtm_bytes P rtm) = sizeof_rt_msghdr"
  using assms by (simp add: rtm_bytes_def length_host_bytes sizeof_rt_msghdr_def)

lemma le_word_le_bytes_16: "le_word (le_bytes 2 w) = (w :: 16 word)"
proof -
  have "le_word (le_bytes 2 w) =
      (ucast (ucast w :: byte) OR push_bit 8 (ucast (ucast (drop_bit 8 w) :: byte)) :: 16 word)"
    by (simp add: numeral_2_eq_2)
  also have "\<dots> = w"
    by (rule bit_eqI) (auto simp: bit_simps)
  finally show ?thesis .
qed

lemma host_word_host_bytes_16: "host_word P (host_bytes P 2 w) = (w :: 16 word)"
  by (simp add: host_word_def host_bytes_def le_word_le_bytes_16)

text \<open>The length field of a header, read back from the bytes that are written.\<close>

lemma get_u16_rtm_bytes:
  "get_u16 P (rtm_bytes P rtm @ rest) off_rtm_msglen = Some (rtm_msglen rtm)"
proof -
  have "take 2 (rtm_bytes P rtm @ rest) = host_bytes P 2 (rtm_msglen rtm)"
    by (simp add: rtm_bytes_def length_host_bytes)
  moreover have "2 \<le> length (rtm_bytes P rtm @ rest)"
    by (simp add: rtm_bytes_def length_host_bytes)
  ultimately show ?thesis
    by (simp add: get_u16_def get_bytes_def off_rtm_msglen_def host_word_host_bytes_16)
qed

subsection \<open>Adding a route\<close>

lemma attach_snd:
  "rtm_rmx (snd (attach c b obj st)) = rtm_rmx (snd st)"
  "rtm_version (snd (attach c b obj st)) = rtm_version (snd st)"
  "rtm_type (snd (attach c b obj st)) = rtm_type (snd st)"
  "rtm_addrs (snd (attach c b obj st)) = rtm_addrs (snd st)"
  "rtm_msglen (snd (attach c b obj st)) =
     rtm_msglen (snd st) + (if c then of_nat (length obj) else 0)"
  "fst (attach c b obj st) = fst st @ (if c then [(b, length obj)] else [])"
  by (simp_all add: attach_def)

lemma add_v4route_build_iov:
  "fst (add_v4route_build P av4) =
     (Iov_rtm, sizeof_rt_msghdr) #
     (if av4_addrs av4 AND RTA_DST P \<noteq> 0 then [(Iov_dest, length (av4_dest av4))] else []) @
     (if av4_addrs av4 AND RTA_GATEWAY P \<noteq> 0 then [(Iov_gateway, length (av4_gateway av4))] else []) @
     (if av4_addrs av4 AND RTA_NETMASK P \<noteq> 0 then [(Iov_netmask, length (av4_netmask av4))] else []) @
     (if av4_addrs av4 AND RTA_IFA P \<noteq> 0 then [(Iov_ifa, length (av4_ifa av4))] else [])"
  by (simp add: add_v4route_build_def Let_def attach_snd)

lemma add_v4route_build_rtm:
  "rtm_rmx (snd (add_v4route_build P av4)) = replicate 56 0"
  "rtm_version (snd (add_v4route_build P av4)) = RTM_VERSION P"
  "rtm_type (snd (add_v4route_build P av4)) = RTM_ADD P"
  "rtm_addrs (snd (add_v4route_build P av4)) = av4_addrs av4"
  "rtm_msglen (snd (add_v4route_build P av4)) =
     of_nat (sizeof_rt_msghdr + length (concat (attached_payloads P av4)))"
  by (simp_all add: add_v4route_build_def Let_def attach_snd zeroed_rtm_def attached_payloads_def)

lemma add_v4route_gather:
  "gather P \<lparr> obj_rtm = rtm, obj_dest = av4_dest av4, obj_gateway = av4_gateway av4,
              obj_netmask = av4_netmask av4, obj_ifa = av4_ifa av4 \<rparr>
     (fst (add_v4route_build P av4)) =
   take sizeof_rt_msghdr (rtm_bytes P rtm) @ concat (attached_payloads P av4)"
  by (simp add: add_v4route_build_iov gather_def iov_bytes_def attached_payloads_def)

text \<open>
  C5. For every add-route request whose message fits the 16-bit length field,
  \<^verbatim>\<open>netcfgd_add_v4route\<close> hands \<^verbatim>\<open>writev\<close> the header followed by the payloads the
  request's bitmap selects among destination, gateway, netmask and interface address, in
  this order and no others. The header is of the add type with the request's bitmap, and
  its \<^verbatim>\<open>rtm_msglen\<close>, as read back from the bytes written, is the size of the header plus
  the sizes of the payloads that follow it, which is the number of bytes written.
\<close>

theorem add_v4route_encoding:
  assumes "sizeof_rt_msghdr + length (concat (attached_payloads P av4)) < 2 ^ 16"
  shows "\<exists>rtm bytes.
    netcfgd_add_v4route P av4 ret =
      Writev_route bytes # (if ret \<noteq> -1 then [Sys_log_warn ''v4_add_route'' []] else []) \<and>
    bytes = rtm_bytes P rtm @ concat (attached_payloads P av4) \<and>
    length (rtm_bytes P rtm) = sizeof_rt_msghdr \<and>
    rtm_version rtm = RTM_VERSION P \<and> rtm_type rtm = RTM_ADD P \<and>
    rtm_addrs rtm = av4_addrs av4 \<and>
    get_u16 P bytes off_rtm_msglen = Some (rtm_msglen rtm) \<and>
    unat (rtm_msglen rtm) = sizeof_rt_msghdr + length (concat (attached_payloads P av4)) \<and>
    unat (rtm_msglen rtm) = length bytes"
proof -
  let ?rtm = "snd (add_v4route_build P av4)"
  let ?bytes = "rtm_bytes P ?rtm @ concat (attached_payloads P av4)"
  note R = add_v4route_build_rtm [of P av4]
  have len: "length (rtm_bytes P ?rtm) = sizeof_rt_msghdr"
    by (rule length_rtm_bytes) (simp add: R)
  have run: "netcfgd_add_v4route P av4 ret =
      Writev_route ?bytes # (if ret \<noteq> -1 then [Sys_log_warn ''v4_add_route'' []] else [])"
    using add_v4route_gather [of P ?rtm av4] len
    by (simp add: netcfgd_add_v4route_def case_prod_unfold Let_def)
  have msglen: "unat (rtm_msglen ?rtm) =
      sizeof_rt_msghdr + length (concat (attached_payloads P av4))"
    unfolding R by (rule of_nat_inverse [OF refl]) (use assms in simp)
  from run len R(2,3,4) get_u16_rtm_bytes [of P ?rtm] msglen show ?thesis
    by (intro exI [of _ ?rtm] exI [of _ ?bytes]) simp
qed

lemma attached_sample: 
  "attached_payloads lp64 sample_add_v4route =
     [sample_sockaddr_in [10, 0, 0, 0], sample_sockaddr_in [10, 0, 0, 1],
      sample_sockaddr_in [255, 0, 0, 0]]"
  by (simp add: attached_payloads_def sample_add_v4route_def lp64_simps)

theorem add_v4route_encoding_witness:
  "sizeof_rt_msghdr + length (concat (attached_payloads lp64 sample_add_v4route)) < 2 ^ 16 \<and>
   (\<exists>rtm bytes.
      netcfgd_add_v4route lp64 sample_add_v4route 0 =
        [Writev_route bytes, Sys_log_warn ''v4_add_route'' []] \<and>
      bytes = rtm_bytes lp64 rtm @ sample_sockaddr_in [10, 0, 0, 0] @
        sample_sockaddr_in [10, 0, 0, 1] @ sample_sockaddr_in [255, 0, 0, 0] \<and>
      get_u16 lp64 bytes off_rtm_msglen = Some 144 \<and> length bytes = 144)"
proof -
  have l: "length (concat (attached_payloads lp64 sample_add_v4route)) = 48"
    by (simp add: attached_sample sample_sockaddr_in_def)
  have b: "sizeof_rt_msghdr + length (concat (attached_payloads lp64 sample_add_v4route)) < 2 ^ 16"
    by (simp add: l sizeof_rt_msghdr_def)
  from add_v4route_encoding [OF b, of 0] obtain rtm bytes where
    r: "netcfgd_add_v4route lp64 sample_add_v4route 0 =
        [Writev_route bytes, Sys_log_warn ''v4_add_route'' []]"
      "bytes = rtm_bytes lp64 rtm @ concat (attached_payloads lp64 sample_add_v4route)"
      "get_u16 lp64 bytes off_rtm_msglen = Some (rtm_msglen rtm)"
      "unat (rtm_msglen rtm) = sizeof_rt_msghdr + length (concat (attached_payloads lp64 sample_add_v4route))"
      "unat (rtm_msglen rtm) = length bytes"
    by auto
  from r(4) have u: "unat (rtm_msglen rtm) = 144" by (simp add: l sizeof_rt_msghdr_def)
  have "rtm_msglen rtm = of_nat (unat (rtm_msglen rtm))" by simp
  also have "\<dots> = 144" unfolding u by simp
  finally have m: "rtm_msglen rtm = 144" .
  have g: "get_u16 lp64 bytes off_rtm_msglen = Some 144" using r(3) m by simp
  have n: "length bytes = 144" using r(5) u by simp
  have c: "bytes = rtm_bytes lp64 rtm @ sample_sockaddr_in [10, 0, 0, 0] @
        sample_sockaddr_in [10, 0, 0, 1] @ sample_sockaddr_in [255, 0, 0, 0]"
    unfolding r(2) attached_sample by simp
  from r(1) c g n have "\<exists>rtm bytes.
      netcfgd_add_v4route lp64 sample_add_v4route 0 =
        [Writev_route bytes, Sys_log_warn ''v4_add_route'' []] \<and>
      bytes = rtm_bytes lp64 rtm @ sample_sockaddr_in [10, 0, 0, 0] @
        sample_sockaddr_in [10, 0, 0, 1] @ sample_sockaddr_in [255, 0, 0, 0] \<and>
      get_u16 lp64 bytes off_rtm_msglen = Some 144 \<and> length bytes = 144"
    by blast
  with b show ?thesis by (rule conjI)
qed

subsection \<open>Removing a route\<close>

lemma delete_v4route_writes:
  "fst (netcfgd_delete_v4route P seqno dv4 ret) =
     Writev_route
       (rtm_bytes P (zeroed_rtm\<lparr> rtm_version := RTM_VERSION P, rtm_type := RTM_DELETE P,
            rtm_addrs := RTA_DST P OR RTA_GATEWAY P OR RTA_NETMASK P, rtm_seq := seqno,
            rtm_index := dv4_index dv4, rtm_tableid := dv4_rdomain dv4,
            rtm_msglen := of_nat (length (dv4_dest dv4)) + of_nat (length (dv4_gateway dv4)) +
               of_nat (length (dv4_netmask dv4)) \<rparr>) @
        dv4_dest dv4 @ dv4_gateway dv4 @ dv4_netmask dv4) #
     (if ret = -1 then [Sys_log_warn ''v4_delete_route'' []] else [])"
proof -
  have "length (rtm_bytes P rtm) = sizeof_rt_msghdr" if "rtm_rmx rtm = replicate 56 0" for rtm
    using that by (simp add: length_rtm_bytes)
  then show ?thesis
    by (simp add: netcfgd_delete_v4route_def Let_def gather_def iov_bytes_def zeroed_rtm_def)
qed

text \<open>
  C6 on the sample request: the function writes the header and the three payloads, 144
  bytes, and the length field of the header in these bytes says 48, the size of the
  payloads alone. \<^verbatim>\<open>netcfgd_delete_v4route\<close> zeroes the header and adds the payload
  sizes to \<^verbatim>\<open>rtm_msglen\<close>, but never sets it to \<^verbatim>\<open>sizeof(rtm)\<close> as \<^verbatim>\<open>netcfgd_add_v4route\<close>
  does.
\<close>

theorem delete_v4route_msglen_without_header:
  "\<exists>bytes. fst (netcfgd_delete_v4route lp64 0 sample_delete_v4route 0) = [Writev_route bytes] \<and>
     length bytes = 144 \<and> get_u16 lp64 bytes off_rtm_msglen = Some 48 \<and>
     drop sizeof_rt_msghdr bytes =
       sample_sockaddr_in [10, 0, 0, 0] @ sample_sockaddr_in [10, 0, 0, 1] @
       sample_sockaddr_in [255, 0, 0, 0]"
proof -
  let ?rtm = "zeroed_rtm\<lparr> rtm_version := RTM_VERSION lp64, rtm_type := RTM_DELETE lp64,
     rtm_addrs := RTA_DST lp64 OR RTA_GATEWAY lp64 OR RTA_NETMASK lp64, rtm_seq := 0,
     rtm_index := dv4_index sample_delete_v4route,
     rtm_tableid := dv4_rdomain sample_delete_v4route,
     rtm_msglen := of_nat (length (dv4_dest sample_delete_v4route)) +
        of_nat (length (dv4_gateway sample_delete_v4route)) +
        of_nat (length (dv4_netmask sample_delete_v4route)) \<rparr>"
  have len: "length (rtm_bytes lp64 ?rtm) = sizeof_rt_msghdr"
    by (rule length_rtm_bytes) (simp add: zeroed_rtm_def)
  have m: "rtm_msglen ?rtm = 48"
    by (simp add: sample_delete_v4route_def sample_sockaddr_in_def)
  show ?thesis
    using delete_v4route_writes [of lp64 0 sample_delete_v4route 0] len
      get_u16_rtm_bytes [of lp64 ?rtm] m
    by (simp add: sample_delete_v4route_def sample_sockaddr_in_def sizeof_rt_msghdr_def)
qed

subsection \<open>Warnings\<close>

text \<open>
  C7. \<^verbatim>\<open>netcfgd_add_v4route\<close> logs its warning when \<^verbatim>\<open>writev\<close> returns anything but
  \<open>-1\<close> and logs nothing when it returns \<open>-1\<close>. The three other operations log their
  warning when their system call returns \<open>-1\<close> and nothing otherwise.
\<close>

theorem add_route_warns_on_success:
  "warnings (netcfgd_add_v4route P av4 ret) =
     (if ret \<noteq> -1 then [Sys_log_warn ''v4_add_route'' []] else []) \<and>
   warnings (fst (netcfgd_delete_v4route P seqno dv4 ret)) =
     (if ret = -1 then [Sys_log_warn ''v4_delete_route'' []] else []) \<and>
   warnings (netcfgd_add_v4address P av4a ret) =
     (if ret = -1 then [Sys_log_warn ''v4_add_address %s'' (sin_addr (av4a_addr av4a))] else []) \<and>
   warnings (netcfgd_delete_v4address P dv4a ret) =
     (if ret = -1
      then [Sys_log_warn ''v4_delete_address %s''
              (sin_addr (memcpy (replicate (sizeof_sockaddr_in P) 0) (dv4a_addr dv4a)
                 (sizeof_sockaddr_in P)))]
      else [])"
  by (simp add: warnings_def netcfgd_add_v4route_def netcfgd_delete_v4route_def
      netcfgd_add_v4address_def netcfgd_delete_v4address_def Let_def case_prod_unfold
      zeroed_ifaliasreq_def)

section \<open>Properties of the channel handlers\<close>

lemma imsg_loop_outcome:
  "fst (imsg_loop handle gets evs k) =
     (if Get_error \<in> set gets then Fatal ''imsg_get'' else Returned)"
proof (induction gets arbitrary: evs k)
  case Nil
  then show ?case by simp
next
  case (Cons g gets)
  then show ?case by (cases g) (simp_all add: split_def Let_def)
qed

lemma main_dispatch_zero_read:
  "main_dispatch ch handle True ev_write (Io_count 0) wr gets =
     (if ev_write \<and> (\<exists>e. wr = Io_error e \<and> e \<noteq> EAGAIN) then (Fatal ''msgbuf_write'', [])
      else if Get_error \<in> set gets
      then (Fatal ''imsg_get'', snd (imsg_loop handle gets [] 0))
      else (Returned,
            snd (imsg_loop handle gets [] 0) @ [Main_event_del ch, Main_event_loopexit]))"
proof -
  obtain out evs where x: "imsg_loop handle gets [] 0 = (out, evs)"
    by (cases "imsg_loop handle gets [] 0")
  with imsg_loop_outcome [of handle gets "[]" 0]
  have o: "out = (if Get_error \<in> set gets then Fatal ''imsg_get'' else Returned)" by simp
  have r: "io_step (Io_count 0) ''imsg_read error'' False = Inr True"
    by (simp add: io_step_def)
  show ?thesis
  proof (cases "ev_write \<and> (\<exists>e. wr = Io_error e \<and> e \<noteq> EAGAIN)")
    case True
    then show ?thesis by (auto simp: main_dispatch_def io_step_def)
  next
    case False
    then have w: "(if ev_write then io_step wr ''msgbuf_write'' True else Inr True) =
        Inr (True)"
      by (cases wr) (auto simp: io_step_def)
    show ?thesis using False by (simp add: main_dispatch_def r w x o)
  qed
qed

lemma main_dispatch_would_block:
  "main_dispatch ch handle True ev_write (Io_error EAGAIN) wr gets =
     (if ev_write \<and> (\<exists>e. wr = Io_error e \<and> e \<noteq> EAGAIN) then (Fatal ''msgbuf_write'', [])
      else if Get_error \<in> set gets
      then (Fatal ''imsg_get'', snd (imsg_loop handle gets [] 0))
      else if ev_write \<and> wr = Io_count 0
      then (Returned,
            snd (imsg_loop handle gets [] 0) @ [Main_event_del ch, Main_event_loopexit])
      else (Returned, snd (imsg_loop handle gets [] 0) @ [Main_imsg_event_add ch]))"
proof -
  obtain out evs where x: "imsg_loop handle gets [] 0 = (out, evs)"
    by (cases "imsg_loop handle gets [] 0")
  with imsg_loop_outcome [of handle gets "[]" 0]
  have o: "out = (if Get_error \<in> set gets then Fatal ''imsg_get'' else Returned)" by simp
  have r: "io_step (Io_error EAGAIN) ''imsg_read error'' False = Inr False"
    by (simp add: io_step_def)
  show ?thesis
  proof (cases "ev_write \<and> (\<exists>e. wr = Io_error e \<and> e \<noteq> EAGAIN)")
    case True
    then show ?thesis by (auto simp: main_dispatch_def io_step_def)
  next
    case False
    then have w: "(if ev_write then io_step wr ''msgbuf_write'' False else Inr False) =
        Inr (ev_write \<and> wr = Io_count 0)"
      by (cases wr) (auto simp: io_step_def)
    show ?thesis using False by (simp add: main_dispatch_def r w x o)
  qed
qed

lemma main_dispatch_read_error:
  assumes "e \<noteq> EAGAIN"
  shows "main_dispatch ch handle True ev_write (Io_error e) wr gets =
     (Fatal ''imsg_read error'', [])"
  using assms by (simp add: main_dispatch_def io_step_def)

text \<open>
  C8, as the handlers have it. On the kernel channel a read of zero bytes makes
  \<^verbatim>\<open>kr_dispatch_msg\<close> log and ask the event loop to exit, and a would-block or an
  interrupted read makes it return having done nothing. For the two handlers of the
  parent's IPC channels, run for reading, the outcome and the events are given in full;
  \<open>snd (imsg_loop handle gets [] 0)\<close> are the events of handling the messages that
  \<^verbatim>\<open>imsg_get\<close> returns, up to its first failure.
  \<^item> After a read of zero bytes the handler calls \<^verbatim>\<open>fatal\<close> if it is also run for writing
    and the write fails with an error other than \<^verbatim>\<open>EAGAIN\<close>, or else if a call of
    \<^verbatim>\<open>imsg_get\<close> fails. Otherwise it returns, and what it does after the messages is
    \<^verbatim>\<open>event_del\<close> on its channel and \<^verbatim>\<open>event_loopexit\<close>, nothing else: with no message
    pending these are its only two events.
  \<^item> After a would-block read the same two cases are fatal. Otherwise the handler ends
    in \<^verbatim>\<open>event_del\<close> and \<^verbatim>\<open>event_loopexit\<close> if it is also run for writing and the write
    returns zero, and in \<^verbatim>\<open>imsg_event_add\<close> on its channel if not.
  \<^item> Every other read error, \<^verbatim>\<open>EINTR\<close> included, is fatal before anything else is done.
\<close>

theorem zero_read_shuts_down:
  "kr_dispatch_msg P fuel (Read_bytes []) =
     (Returned, [Log_warnx ''routing socket closed'' [], Event_loopexit]) \<and>
   kr_dispatch_msg P fuel (Read_error EAGAIN) = (Returned, []) \<and>
   kr_dispatch_msg P fuel (Read_error EINTR) = (Returned, []) \<and>
   (dispatch = main_dispatch_frontend P compose \<and> ch = Frontend \<and>
      handle = frontend_imsg P compose \<or>
    dispatch = main_dispatch_engine P compose \<and> ch = Engine \<and>
      handle = engine_imsg P compose \<longrightarrow>
      dispatch True ev_write (Io_count 0) wr gets =
        (if ev_write \<and> (\<exists>e. wr = Io_error e \<and> e \<noteq> EAGAIN)
         then (Fatal ''msgbuf_write'', [])
         else if Get_error \<in> set gets
         then (Fatal ''imsg_get'', snd (imsg_loop handle gets [] 0))
         else (Returned,
               snd (imsg_loop handle gets [] 0) @ [Main_event_del ch, Main_event_loopexit])) \<and>
      dispatch True ev_write (Io_count 0) wr [] =
        (if ev_write \<and> (\<exists>e. wr = Io_error e \<and> e \<noteq> EAGAIN)
         then (Fatal ''msgbuf_write'', [])
         else (Returned, [Main_event_del ch, Main_event_loopexit])) \<and>
      dispatch True ev_write (Io_error EAGAIN) wr gets =
        (if ev_write \<and> (\<exists>e. wr = Io_error e \<and> e \<noteq> EAGAIN)
         then (Fatal ''msgbuf_write'', [])
         else if Get_error \<in> set gets
         then (Fatal ''imsg_get'', snd (imsg_loop handle gets [] 0))
         else if ev_write \<and> wr = Io_count 0
         then (Returned,
               snd (imsg_loop handle gets [] 0) @ [Main_event_del ch, Main_event_loopexit])
         else (Returned, snd (imsg_loop handle gets [] 0) @ [Main_imsg_event_add ch])) \<and>
      (\<forall>e. e \<noteq> EAGAIN \<longrightarrow>
         dispatch True ev_write (Io_error e) wr gets = (Fatal ''imsg_read error'', [])))"
proof (intro conjI impI allI)
  show "kr_dispatch_msg P fuel (Read_bytes []) =
     (Returned, [Log_warnx ''routing socket closed'' [], Event_loopexit])"
    "kr_dispatch_msg P fuel (Read_error EAGAIN) = (Returned, [])"
    "kr_dispatch_msg P fuel (Read_error EINTR) = (Returned, [])"
    by (simp_all add: kr_dispatch_msg_def)
next
  assume "dispatch = main_dispatch_frontend P compose \<and> ch = Frontend \<and>
      handle = frontend_imsg P compose \<or>
    dispatch = main_dispatch_engine P compose \<and> ch = Engine \<and>
      handle = engine_imsg P compose"
  then have d: "dispatch = main_dispatch ch handle"
    by (auto simp: main_dispatch_frontend_def main_dispatch_engine_def)
  show "dispatch True ev_write (Io_count 0) wr gets =
        (if ev_write \<and> (\<exists>e. wr = Io_error e \<and> e \<noteq> EAGAIN)
         then (Fatal ''msgbuf_write'', [])
         else if Get_error \<in> set gets
         then (Fatal ''imsg_get'', snd (imsg_loop handle gets [] 0))
         else (Returned,
               snd (imsg_loop handle gets [] 0) @ [Main_event_del ch, Main_event_loopexit]))"
    unfolding d by (rule main_dispatch_zero_read)
  show "dispatch True ev_write (Io_count 0) wr [] =
        (if ev_write \<and> (\<exists>e. wr = Io_error e \<and> e \<noteq> EAGAIN)
         then (Fatal ''msgbuf_write'', [])
         else (Returned, [Main_event_del ch, Main_event_loopexit]))"
    unfolding d main_dispatch_zero_read by simp
  show "dispatch True ev_write (Io_error EAGAIN) wr gets =
        (if ev_write \<and> (\<exists>e. wr = Io_error e \<and> e \<noteq> EAGAIN)
         then (Fatal ''msgbuf_write'', [])
         else if Get_error \<in> set gets
         then (Fatal ''imsg_get'', snd (imsg_loop handle gets [] 0))
         else if ev_write \<and> wr = Io_count 0
         then (Returned,
               snd (imsg_loop handle gets [] 0) @ [Main_event_del ch, Main_event_loopexit])
         else (Returned, snd (imsg_loop handle gets [] 0) @ [Main_imsg_event_add ch]))"
    unfolding d by (rule main_dispatch_would_block)
  fix e :: errno
  assume "e \<noteq> EAGAIN"
  then show "dispatch True ev_write (Io_error e) wr gets = (Fatal ''imsg_read error'', [])"
    unfolding d by (rule main_dispatch_read_error)
qed

theorem zero_read_shuts_down_witness:
  "main_dispatch_frontend lp64 (\<lambda>k. 1) True True (Io_count 0) (Io_count 20)
       [Get_imsg IMSG_CTL_SHOW_MAIN_INFO 0 None, Get_imsg IMSG_CTL_LOG_VERBOSE 1 None] =
     (Returned,
      [Main_imsg_compose Frontend IMSG_CTL_SHOW_MAIN_INFO (Text_payload ''I'm a little teapot.''),
       Main_imsg_event_add Frontend,
       Main_imsg_compose Frontend IMSG_CTL_SHOW_MAIN_INFO (Text_payload ''Full of sencha.''),
       Main_imsg_event_add Frontend,
       Main_imsg_compose Frontend IMSG_CTL_END No_payload,
       Main_imsg_event_add Frontend,
       Main_log_verbose 1,
       Main_event_del Frontend, Main_event_loopexit]) \<and>
   main_dispatch_frontend lp64 (\<lambda>k. 1) True True (Io_count 0) (Io_count 20) [] =
     (Returned, [Main_event_del Frontend, Main_event_loopexit]) \<and>
   main_dispatch_frontend lp64 (\<lambda>k. 1) True True (Io_error EAGAIN) (Io_count 20)
       [Get_imsg IMSG_CTL_SHOW_MAIN_INFO 0 None, Get_imsg IMSG_CTL_LOG_VERBOSE 1 None] =
     (Returned,
      [Main_imsg_compose Frontend IMSG_CTL_SHOW_MAIN_INFO (Text_payload ''I'm a little teapot.''),
       Main_imsg_event_add Frontend,
       Main_imsg_compose Frontend IMSG_CTL_SHOW_MAIN_INFO (Text_payload ''Full of sencha.''),
       Main_imsg_event_add Frontend,
       Main_imsg_compose Frontend IMSG_CTL_END No_payload,
       Main_imsg_event_add Frontend,
       Main_log_verbose 1,
       Main_imsg_event_add Frontend]) \<and>
   main_dispatch_engine lp64 (\<lambda>k. 1) True True (Io_error EAGAIN) (Io_count 0)
       [Get_imsg IMSG_CTL_LOG_VERBOSE 1 None] =
     (Returned,
      [Main_log_debug ''main_dispatch_engine: error handling imsg %d'',
       Main_event_del Engine, Main_event_loopexit]) \<and>
   EINTR \<noteq> EAGAIN \<and>
   main_dispatch_frontend lp64 (\<lambda>k. 1) True True (Io_error EINTR) (Io_count 20)
       [Get_imsg IMSG_CTL_SHOW_MAIN_INFO 0 None, Get_imsg IMSG_CTL_LOG_VERBOSE 1 None] =
     (Fatal ''imsg_read error'', [])"
proof -
  let ?gets = "[Get_imsg IMSG_CTL_SHOW_MAIN_INFO 0 None, Get_imsg IMSG_CTL_LOG_VERBOSE 1 None]"
  let ?gets' = "[Get_imsg IMSG_CTL_LOG_VERBOSE 1 None]"
  let ?c = "\<lambda>k :: nat. 1 :: int"
  note T = zero_read_shuts_down [of lp64 0 "main_dispatch_frontend lp64 ?c" ?c Frontend
      "frontend_imsg lp64 ?c" True "Io_count 20" ?gets]
  note T' = zero_read_shuts_down [of lp64 0 "main_dispatch_engine lp64 ?c" ?c Engine
      "engine_imsg lp64 ?c" True "Io_count 0" ?gets']
  have d: "main_dispatch_frontend lp64 ?c = main_dispatch_frontend lp64 ?c \<and>
      Frontend = Frontend \<and> frontend_imsg lp64 ?c = frontend_imsg lp64 ?c \<or>
    main_dispatch_frontend lp64 ?c = main_dispatch_engine lp64 ?c \<and> Frontend = Engine \<and>
      frontend_imsg lp64 ?c = engine_imsg lp64 ?c"
    by simp
  have d': "main_dispatch_engine lp64 ?c = main_dispatch_frontend lp64 ?c \<and>
      Engine = Frontend \<and> engine_imsg lp64 ?c = frontend_imsg lp64 ?c \<or>
    main_dispatch_engine lp64 ?c = main_dispatch_engine lp64 ?c \<and> Engine = Engine \<and>
      engine_imsg lp64 ?c = engine_imsg lp64 ?c"
    by simp
  have w: "\<not> (True \<and> (\<exists>e. Io_count 20 = Io_error e \<and> e \<noteq> EAGAIN))"
    "\<not> (True \<and> (\<exists>e. Io_count 0 = Io_error e \<and> e \<noteq> EAGAIN))"
    "\<not> (True \<and> Io_count 20 = Io_count 0)" "True \<and> Io_count 0 = Io_count 0"
    by simp_all
  have g: "Get_error \<notin> set ?gets" "Get_error \<notin> set ?gets'" by simp_all
  have ne: "EINTR \<noteq> EAGAIN" by simp
  have e: "snd (imsg_loop (frontend_imsg lp64 ?c) ?gets [] 0) =
     [Main_imsg_compose Frontend IMSG_CTL_SHOW_MAIN_INFO (Text_payload ''I'm a little teapot.''),
      Main_imsg_event_add Frontend,
      Main_imsg_compose Frontend IMSG_CTL_SHOW_MAIN_INFO (Text_payload ''Full of sencha.''),
      Main_imsg_event_add Frontend,
      Main_imsg_compose Frontend IMSG_CTL_END No_payload,
      Main_imsg_event_add Frontend,
      Main_log_verbose 1]"
    by code_simp
  have e': "snd (imsg_loop (engine_imsg lp64 ?c) ?gets' [] 0) =
     [Main_log_debug ''main_dispatch_engine: error handling imsg %d'']"
    by code_simp
  note I = T [THEN conjunct2, THEN conjunct2, THEN conjunct2, THEN mp, OF d]
  note I' = T' [THEN conjunct2, THEN conjunct2, THEN conjunct2, THEN mp, OF d']
  have 1: "main_dispatch_frontend lp64 ?c True True (Io_count 0) (Io_count 20) ?gets =
     (Returned,
      [Main_imsg_compose Frontend IMSG_CTL_SHOW_MAIN_INFO (Text_payload ''I'm a little teapot.''),
       Main_imsg_event_add Frontend,
       Main_imsg_compose Frontend IMSG_CTL_SHOW_MAIN_INFO (Text_payload ''Full of sencha.''),
       Main_imsg_event_add Frontend,
       Main_imsg_compose Frontend IMSG_CTL_END No_payload,
       Main_imsg_event_add Frontend,
       Main_log_verbose 1,
       Main_event_del Frontend, Main_event_loopexit])"
    unfolding I [THEN conjunct1] e if_not_P [OF w(1)] if_not_P [OF g(1)] by simp
  have 2: "main_dispatch_frontend lp64 ?c True True (Io_count 0) (Io_count 20) [] =
     (Returned, [Main_event_del Frontend, Main_event_loopexit])"
    unfolding I [THEN conjunct2, THEN conjunct1] if_not_P [OF w(1)] by simp
  have 3: "main_dispatch_frontend lp64 ?c True True (Io_error EAGAIN) (Io_count 20) ?gets =
     (Returned,
      [Main_imsg_compose Frontend IMSG_CTL_SHOW_MAIN_INFO (Text_payload ''I'm a little teapot.''),
       Main_imsg_event_add Frontend,
       Main_imsg_compose Frontend IMSG_CTL_SHOW_MAIN_INFO (Text_payload ''Full of sencha.''),
       Main_imsg_event_add Frontend,
       Main_imsg_compose Frontend IMSG_CTL_END No_payload,
       Main_imsg_event_add Frontend,
       Main_log_verbose 1,
       Main_imsg_event_add Frontend])"
    unfolding I [THEN conjunct2, THEN conjunct2, THEN conjunct1] e if_not_P [OF w(1)]
      if_not_P [OF g(1)] if_not_P [OF w(3)] by simp
  have 4: "main_dispatch_engine lp64 ?c True True (Io_error EAGAIN) (Io_count 0) ?gets' =
     (Returned,
      [Main_log_debug ''main_dispatch_engine: error handling imsg %d'',
       Main_event_del Engine, Main_event_loopexit])"
    unfolding I' [THEN conjunct2, THEN conjunct2, THEN conjunct1] e' if_not_P [OF w(2)]
      if_not_P [OF g(2)] if_P [OF w(4)] by simp
  note 5 = I [THEN conjunct2, THEN conjunct2, THEN conjunct2, THEN spec, THEN mp, OF ne]
  show ?thesis
    by (intro conjI) (rule 1 2 3 4 ne 5)+
qed

text \<open>
  C8 as stated fails in the parent's handlers: a call that is run for reading and
  writing, whose read returns zero bytes and whose write fails with \<^verbatim>\<open>EPIPE\<close>, ends in
  \<^verbatim>\<open>fatal("msgbuf_write")\<close>; and an interrupted read ends in \<^verbatim>\<open>fatal("imsg_read error")\<close>.
\<close>

theorem zero_read_fatal_counterexample:
  "main_dispatch_frontend lp64 (\<lambda>k. 1) True True (Io_count 0) (Io_error EPIPE) [] =
     (Fatal ''msgbuf_write'', []) \<and>
   main_dispatch_engine lp64 (\<lambda>k. 1) True True (Io_count 0) (Io_error EPIPE) [] =
     (Fatal ''msgbuf_write'', []) \<and>
   main_dispatch_frontend lp64 (\<lambda>k. 1) True False (Io_error EINTR) (Io_count 0) [] =
     (Fatal ''imsg_read error'', [])"
  by (simp add: main_dispatch_frontend_def main_dispatch_engine_def main_dispatch_def
      io_step_def)

section \<open>Properties of \<^verbatim>\<open>merge_config\<close>\<close>

lemma discard_groups_at:
  "discard_groups gs h a = (if a \<in> set gs then None else h a)"
  by (induction gs arbitrary: h) auto

lemma discard_groups_eq:
  "discard_groups gs h = (\<lambda>a. if a \<in> set gs then None else h a)"
  by (rule ext) (rule discard_groups_at)

lemma adopt_groups_eq: "adopt_groups xs conf_list = rev xs @ conf_list"
  by (induction xs arbitrary: conf_list) auto

text \<open>
  What \<^verbatim>\<open>merge_config\<close> does: four members of the retained configuration take the new
  values, every group of the old list is freed, the groups of the new list are entered as
  they are (the same objects, in reverse order), and the new configuration is freed.
  Every other member of the retained configuration keeps its value.
\<close>

lemma merge_config_result:
  assumes "confs h conf = Some c" "confs h xconf = Some x" "conf \<noteq> xconf"
  shows "merge_config h conf xconf =
    Some \<lparr> confs = (confs h)
              (conf := Some (c\<lparr> conf_opts := conf_opts x, conf_yesno := conf_yesno x,
                  conf_integer := conf_integer x, conf_global_text := conf_global_text x,
                  conf_group_list := rev (conf_group_list x) \<rparr>),
               xconf := None),
            groups = (\<lambda>a. if a \<in> set (conf_group_list c) then None else groups h a) \<rparr>"
  using assms by (simp add: merge_config_def Let_def adopt_groups_eq discard_groups_eq)

text \<open>
  C9 on the sample store: after \<^verbatim>\<open>merge_config\<close> the retained configuration has the new
  \<open>opts\<close>, \<open>yesno\<close>, \<open>integer\<close> and \<open>global_text\<close> (16 and the byte 110) and the new groups,
  but still its old \<open>global_yesno\<close>, \<open>global_integer\<close>, \<open>v4_bits\<close>, \<open>global_v4_bits\<close>,
  \<open>v6_bits\<close>, \<open>global_v6_bits\<close>, addresses and \<open>text\<close> (24 and the byte 111).
\<close>

theorem merge_config_keeps_settings:
  "\<exists>h c. merge_config sample_heap 0 1 = Some h \<and> confs h 0 = Some c \<and> confs h 1 = None \<and>
     conf_opts c = 16 \<and> conf_yesno c = 16 \<and> conf_integer c = 16 \<and>
     conf_global_text c = [110] \<and>
     conf_global_yesno c = 24 \<and> conf_global_integer c = 24 \<and> conf_v4_bits c = 24 \<and>
     conf_global_v4_bits c = 24 \<and> conf_v6_bits c = 24 \<and> conf_global_v6_bits c = 24 \<and>
     conf_v4address c = [111] \<and> conf_global_v4address c = [111] \<and>
     conf_v6address c = [111] \<and> conf_global_v6address c = [111] \<and> conf_text c = [111] \<and>
     conf_group_list c = [12, 11] \<and>
     groups h 10 = None \<and> groups h 11 = Some (sample_group [98]) \<and>
     groups h 12 = Some (sample_group [99])"
proof -
  have c: "confs sample_heap 0 = Some (sample_conf 24 [111] [10])"
    and x: "confs sample_heap 1 = Some (sample_conf 16 [110] [11, 12])"
    by (simp_all add: sample_heap_def)
  have ne: "(0::nat) \<noteq> 1" by simp
  show ?thesis
    unfolding merge_config_result [OF c x ne]
    by (simp add: sample_conf_def sample_heap_def)
qed

end
